theory Spec2Isabelle
  imports Complex_Main "HOL-Library.AList" "HOL-Library.Sublist" "HOL-Library.Log_Nat"
    "HOL-Library.Code_Target_Nat"
begin

section \<open>JavaScript values used by the pricing code\<close>

text \<open>
  A JavaScript Number is an IEEE 754 double. \<open>Num x\<close> is the finite double whose exact
  value is the rational \<open>x\<close> (the two zeros are not told apart: nothing here depends on
  the sign of zero), beside \<open>NaN\<close> and the two infinities. Only rationals that are values
  of doubles are meant (\<open>is_double\<close>); \<open>round_double\<close> gives the double nearest to any
  rational, which is also what a decimal literal or a JSON number denotes.
  Strings are lists of 8-bit characters: \<open>charCodeAt\<close> is \<open>of_char\<close>.
\<close>

datatype number = Num rat | NaN | PosInf | NegInf

text \<open>Rounding to the nearest integer, a tie to the even one.\<close>

definition round_half_even :: "rat \<Rightarrow> int" where
  "round_half_even r =
     (let f = \<lfloor>r\<rfloor>; d = r - of_int f
      in if d < 1 / 2 then f else if 1 / 2 < d then f + 1 else if even f then f else f + 1)"

text \<open>
  For a positive rational \<open>a\<close>, the binary exponent \<open>e\<close> with
  \<open>2^e \<le> a < 2^(e+1)\<close>, from the number of bits of the integer part of \<open>a\<close> or of
  \<open>1 / a\<close>.
\<close>

definition exponent :: "rat \<Rightarrow> int" where
  "exponent a = (if 1 \<le> a then bitlen \<lfloor>a\<rfloor> - 1 else - bitlen (\<lceil>1 / a\<rceil> - 1))"

text \<open>
  The double nearest to a rational (round to nearest, ties to even): the magnitude is
  rounded to a multiple of the spacing of the doubles around it, which is
  \<open>2^(e - 52)\<close> and never less than \<open>2^(-1074)\<close>; a magnitude that rounds to
  \<open>2^1024\<close> or more overflows to an infinity.
\<close>

definition round_double :: "rat \<Rightarrow> number" where
  "round_double x =
     (if x = 0 then Num 0
      else
        (let a = \<bar>x\<bar>;
             q = 2 powi (max (exponent a - 52) (- 1074));
             r = of_int (round_half_even (a / q)) * q
         in if 2 powi 1024 \<le> r then (if x < 0 then NegInf else PosInf)
            else Num (if x < 0 then - r else r)))"

definition is_double :: "rat \<Rightarrow> bool" where
  "is_double x = (round_double x = Num x)"

text \<open>The product of two Numbers, as \<open>*\<close> computes it.\<close>

fun times_number :: "number \<Rightarrow> number \<Rightarrow> number" where
  "times_number NaN _ = NaN"
| "times_number _ NaN = NaN"
| "times_number (Num a) (Num b) = round_double (a * b)"
| "times_number (Num a) PosInf = (if a = 0 then NaN else if a < 0 then NegInf else PosInf)"
| "times_number (Num a) NegInf = (if a = 0 then NaN else if a < 0 then PosInf else NegInf)"
| "times_number PosInf (Num b) = (if b = 0 then NaN else if b < 0 then NegInf else PosInf)"
| "times_number NegInf (Num b) = (if b = 0 then NaN else if b < 0 then PosInf else NegInf)"
| "times_number PosInf PosInf = PosInf"
| "times_number PosInf NegInf = NegInf"
| "times_number NegInf PosInf = NegInf"
| "times_number NegInf NegInf = PosInf"

text \<open>Truthiness of a number: \<open>0\<close> and \<open>NaN\<close> are falsy.\<close>

fun truthy :: "number \<Rightarrow> bool" where
  "truthy (Num r) = (r \<noteq> 0)"
| "truthy NaN = False"
| "truthy PosInf = True"
| "truthy NegInf = True"

text \<open>Decimal digits; \<open>digit_char\<close> is only applied to numbers below ten.\<close>

definition digit_char :: "nat \<Rightarrow> char" where
  "digit_char d = ''0123456789'' ! d"

fun digits_of :: "nat \<Rightarrow> string" where
  "digits_of n = (if n < 10 then [digit_char n] else digits_of (n div 10) @ [digit_char (n mod 10)])"

declare digits_of.simps [simp del]

text \<open>
  The text of a double of magnitude \<open>10^21\<close> or more, as \<open>Number::toString\<close> gives it:
  the shortest digit string \<open>s\<close> (of \<open>k\<close> digits) for which \<open>s * 10^(n - k)\<close> rounds
  to the double, the closest one when there are several, printed as first digit, point,
  remaining digits, \<open>e+\<close> and \<open>n - 1\<close>. Seventeen digits always suffice.
  \<open>digit_candidates a k\<close> lists the pairs \<open>(s, n)\<close> of \<open>k\<close> digits that round to \<open>a\<close>.
\<close>

definition digit_candidates :: "rat \<Rightarrow> nat \<Rightarrow> (nat \<times> nat) list" where
  "digit_candidates a k =
     (let n0 = length (digits_of (nat \<lfloor>a\<rfloor>))
      in concat (map (\<lambda>n.
           (let low = nat \<lfloor>a / 10 ^ (n - k)\<rfloor>
            in map (\<lambda>s. (s, n))
                 (filter (\<lambda>s. 10 ^ (k - 1) \<le> s \<and> s < 10 ^ k \<and>
                               round_double (of_nat s * 10 ^ (n - k)) = Num a)
                    [low, low + 1])))
         [n0, n0 + 1]))"

definition closest_candidate :: "rat \<Rightarrow> nat \<Rightarrow> (nat \<times> nat) list \<Rightarrow> nat \<times> nat" where
  "closest_candidate a k cs =
     fold (\<lambda>(s, n) (s', n').
             if \<bar>of_nat s * 10 ^ (n - k) - a\<bar> < \<bar>of_nat s' * 10 ^ (n' - k) - a\<bar>
             then (s, n) else (s', n'))
          (tl cs) (hd cs)"

definition shortest_digits :: "rat \<Rightarrow> nat \<times> nat" where
  "shortest_digits a =
     (case filter (\<lambda>k. digit_candidates a k \<noteq> []) [1..<18] of
        k # _ \<Rightarrow> closest_candidate a k (digit_candidates a k)
      | [] \<Rightarrow> (nat \<lfloor>a\<rfloor>, length (digits_of (nat \<lfloor>a\<rfloor>))))"

definition exponent_text :: "rat \<Rightarrow> string" where
  "exponent_text a =
     (let (s, n) = shortest_digits a
      in (case digits_of s of
            [] \<Rightarrow> []
          | d # rest \<Rightarrow> (if rest = [] then [d] else d # ''.'' @ rest))
         @ ''e+'' @ digits_of (n - 1))"

text \<open>
  \<open>Number.prototype.toFixed(2)\<close>: the sign is split off; a magnitude of \<open>10^21\<close> or
  more is printed as \<open>Number::toString\<close> prints it; otherwise \<open>n\<close> is the integer with
  \<open>n / 100\<close> closest to the magnitude (the larger one on a tie), and the digits of
  \<open>n\<close> are printed with a point before the last two. \<open>hundredths\<close> is that \<open>n\<close>.
\<close>

definition hundredths :: "rat \<Rightarrow> nat" where
  "hundredths x = nat \<lfloor>x * 100 + 1 / 2\<rfloor>"

definition fixed2 :: "nat \<Rightarrow> string" where
  "fixed2 n = digits_of (n div 100) @ ''.'' @ [digit_char ((n div 10) mod 10), digit_char (n mod 10)]"

definition fixed_or_exponent :: "rat \<Rightarrow> string" where
  "fixed_or_exponent a = (if 10 ^ 21 \<le> a then exponent_text a else fixed2 (hundredths a))"

fun toFixed2 :: "number \<Rightarrow> string" where
  "toFixed2 NaN = ''NaN''"
| "toFixed2 PosInf = ''Infinity''"
| "toFixed2 NegInf = ''-Infinity''"
| "toFixed2 (Num x) = (if x < 0 then ''-'' @ fixed_or_exponent (- x) else fixed_or_exponent x)"

text \<open>
  \<open>Math.round(v) + '%'\<close>: \<open>Math.round\<close> is \<open>floor (v + 1/2)\<close>, and the integer is
  printed in decimal, or in exponent form from \<open>10^21\<close>.
\<close>

definition integer_text :: "int \<Rightarrow> string" where
  "integer_text r =
     (if 10 ^ 21 \<le> \<bar>r\<bar> then exponent_text (of_int \<bar>r\<bar>) else digits_of (nat \<bar>r\<bar>))"

fun percent_string :: "number \<Rightarrow> string" where
  "percent_string NaN = ''NaN%''"
| "percent_string PosInf = ''Infinity%''"
| "percent_string NegInf = ''-Infinity%''"
| "percent_string (Num x) =
     (let r = \<lfloor>x + 1 / 2\<rfloor>
      in (if r < 0 then ''-'' @ integer_text r else integer_text r) @ ''%'')"

section \<open>Cards\<close>

text \<open>
  A formatted Card Result, as \<open>formatCardResults\<close>, \<open>getCardPricing\<close>,
  \<open>getSampleCard\<close> and \<open>createMockCardResult\<close> build it. \<open>c_avg\<close> is
  \<open>card.prices?.tcgplayer?.avg\<close>, \<open>None\<close> when the chain yields \<open>undefined\<close>.
\<close>

record card =
  c_id :: string
  c_name :: string
  c_set :: string
  c_setCode :: string
  c_number :: string
  c_imageUrl :: string
  c_rarity :: string
  c_type :: string
  c_hp :: string
  c_avg :: "number option"

text \<open>
  The value of \<open>conditionMultipliers[condition] || 0.5\<close>. The table is an object literal,
  so a lookup that misses the three own keys continues in \<open>Object.prototype\<close>, whose
  properties are functions (and, for \<open>__proto__\<close>, the prototype object): all truthy, so
  the \<open>||\<close> keeps them.
\<close>

datatype multiplier = Factor rat | Inherited string

definition conditionMultipliers :: "(string \<times> rat) list" where
  "conditionMultipliers =
     [(''Near Mint'', 1), (''Lightly Played'', 3 / 4), (''Moderately Played'', 1 / 2)]"

definition Object_prototype_names :: "string list" where
  "Object_prototype_names =
     [''constructor'', ''hasOwnProperty'', ''isPrototypeOf'', ''propertyIsEnumerable'',
      ''toLocaleString'', ''toString'', ''valueOf'', ''__proto__'',
      ''__defineGetter__'', ''__defineSetter__'', ''__lookupGetter__'', ''__lookupSetter__'']"

definition lookup_multiplier :: "string \<Rightarrow> multiplier" where
  "lookup_multiplier condition =
     (case map_of conditionMultipliers condition of
        Some m \<Rightarrow> Factor m
      | None \<Rightarrow> if condition \<in> set Object_prototype_names then Inherited condition
                else Factor (1 / 2))"

text \<open>The multiplier as an operand of \<open>*\<close>: a function or object converts to \<open>NaN\<close>.\<close>

fun multiplier_number :: "multiplier \<Rightarrow> number" where
  "multiplier_number (Factor m) = Num m"
| "multiplier_number (Inherited _) = NaN"

text \<open>
  \<open>generateMockPrice\<close> of api.js reads \<open>card.name\<close> of its argument. It is called with a
  card object (by \<open>enrichCardWithPricing\<close>) and with a name string (by
  \<open>formatCardResults\<close> and \<open>getCardPricing\<close>); a string has no \<open>name\<close> property.
\<close>

datatype mock_arg = CardArg string | StringArg string

fun name_property :: "mock_arg \<Rightarrow> string option" where
  "name_property (CardArg n) = Some n"
| "name_property (StringArg _) = None"

text \<open>\<open>v || d\<close> on a possibly undefined string: the empty string is falsy.\<close>

fun or_default :: "string option \<Rightarrow> string \<Rightarrow> string" where
  "or_default None d = d"
| "or_default (Some s) d = (if s = [] then d else s)"

text \<open>\<open>s.charCodeAt(0)\<close>, \<open>NaN\<close> on the empty string.\<close>

fun charCodeAt0 :: "string \<Rightarrow> nat option" where
  "charCodeAt0 [] = None"
| "charCodeAt0 (c # _) = Some (of_char c)"

definition API_generateMockPrice :: "mock_arg \<Rightarrow> number" where
  "API_generateMockPrice arg =
     (case charCodeAt0 (or_default (name_property arg) ''pokemon'') of
        None \<Rightarrow> NaN
      | Some seed \<Rightarrow> Num (of_nat (5 + (seed * 137) mod 496)))"

record priceBreakdown =
  pb_basePrice :: string
  pb_conditionAdjustment :: string
  pb_estimatedValue :: string

record enriched = card +
  selectedCondition :: string
  basePrice :: string
  adjustedPrice :: string
  conditionMultiplier :: multiplier
  breakdown :: priceBreakdown

text \<open>\<open>card.prices?.tcgplayer?.avg || generateMockPrice(card)\<close>.\<close>

definition base_price :: "card \<Rightarrow> number" where
  "base_price crd =
     (case c_avg crd of
        Some v \<Rightarrow> if truthy v then v else API_generateMockPrice (CardArg (c_name crd))
      | None \<Rightarrow> API_generateMockPrice (CardArg (c_name crd)))"

text \<open>A card whose price, when it has one, is a JavaScript Number.\<close>

definition number_ok :: "number \<Rightarrow> bool" where
  "number_ok v = (case v of Num x \<Rightarrow> is_double x | _ \<Rightarrow> True)"

definition price_ok :: "card \<Rightarrow> bool" where
  "price_ok crd = (case c_avg crd of None \<Rightarrow> True | Some v \<Rightarrow> number_ok v)"

definition enrichCardWithPricing :: "card \<Rightarrow> string \<Rightarrow> enriched" where
  "enrichCardWithPricing crd condition =
     (let multiplier = lookup_multiplier condition;
          basePrice = base_price crd;
          adjustedPrice = times_number basePrice (multiplier_number multiplier)
      in card.extend crd
           (enriched.fields condition (toFixed2 basePrice) (toFixed2 adjustedPrice) multiplier
              \<lparr> pb_basePrice = toFixed2 basePrice,
                pb_conditionAdjustment =
                  percent_string (times_number (multiplier_number multiplier) (Num 100)),
                pb_estimatedValue = toFixed2 adjustedPrice \<rparr>))"

definition getSampleCard :: card where
  "getSampleCard =
     \<lparr> c_id = ''sample_001'', c_name = ''Charizard'', c_set = ''Base Set'', c_setCode = ''BS'',
       c_number = ''4/102'', c_imageUrl = ''https://images.pokemontcg.io/base1/4.png'',
       c_rarity = ''Holo Rare'', c_type = ''Fire'', c_hp = ''120'',
       c_avg = Some (Num (91 / 2)) \<rparr>"

section \<open>String operations\<close>

text \<open>
  \<open>trim\<close> removes the white space of both ends (among 8-bit characters: tab, line feed,
  vertical tab, form feed, carriage return, space and no-break space); \<open>toLowerCase\<close>
  maps \<open>A\<close>-\<open>Z\<close> and the accented capitals of Latin-1 to their small letters;
  \<open>includes_str s t\<close> is \<open>s.includes(t)\<close>.
\<close>

definition is_space :: "char \<Rightarrow> bool" where
  "is_space c = ((of_char c :: nat) \<in> {9, 10, 11, 12, 13, 32, 160})"

definition trim :: "string \<Rightarrow> string" where
  "trim s = rev (dropWhile is_space (rev (dropWhile is_space s)))"

definition lower_char :: "char \<Rightarrow> char" where
  "lower_char c =
     (let n = (of_char c :: nat)
      in if (65 \<le> n \<and> n \<le> 90) \<or> (192 \<le> n \<and> n \<le> 214) \<or> (216 \<le> n \<and> n \<le> 222)
         then char_of (n + 32) else c)"

definition toLowerCase :: "string \<Rightarrow> string" where
  "toLowerCase s = map lower_char s"

fun includes_str :: "string \<Rightarrow> string \<Rightarrow> bool" where
  "includes_str [] t = (t = [])"
| "includes_str (c # cs) t = (prefix t (c # cs) \<or> includes_str cs t)"

section \<open>Lookup Service (api.js)\<close>

text \<open>
  A card object of the remote catalogue. The code reads \<open>id\<close> and \<open>name\<close> without a
  guard and every other property through \<open>?.\<close> or \<open>||\<close>, so those may be absent.
\<close>

record raw_set =
  rs_name :: "string option"
  rs_id :: "string option"

record raw_images =
  ri_large :: "string option"
  ri_small :: "string option"

record raw_card =
  r_id :: string
  r_name :: string
  r_set :: "raw_set option"
  r_number :: "string option"
  r_images :: "raw_images option"
  r_rarity :: "string option"
  r_types :: "string list option"
  r_hp :: "string option"

text \<open>
  What \<open>fetch\<close> and \<open>response.json()\<close> do: reject with a message, or reply with the
  \<open>ok\<close> flag, the status (code and text, as the error message prints them) and the
  parsed body. \<open>Replied\<close> is a reply whose body is an object with the expected content
  of \<open>data\<close> (cards with names), or without \<open>data\<close>; \<open>RepliedOther\<close> is a reply with
  another JSON body: \<open>null\<close>, a \<open>data\<close> that holds a card object without a name
  (for \<open>/cards\<close> in its array, whatever else the array holds), or a \<open>data\<close> that is
  a string. \<open>fetchFromPokemonTCG\<close> catches a rejection and turns a reply that is not
  \<open>ok\<close> into an error, so it always returns a result object.
\<close>

datatype other_body = NullBody | NamelessCard | DataText string

datatype 'a http_outcome =
  Rejected string | Replied bool string 'a | RepliedOther bool string other_body

datatype 'a fetched = FetchError string | FetchOk 'a | FetchOther other_body

fun fetchFromPokemonTCG :: "'a http_outcome \<Rightarrow> 'a fetched" where
  "fetchFromPokemonTCG (Rejected msg) = FetchError msg"
| "fetchFromPokemonTCG (Replied ok status body) =
     (if \<not> ok then FetchError (''API Error: '' @ status) else FetchOk body)"
| "fetchFromPokemonTCG (RepliedOther ok status body) =
     (if \<not> ok then FetchError (''API Error: '' @ status) else FetchOther body)"

text \<open>
  The messages of the \<open>TypeError\<close>s that reading such a body raises, in the wording of
  V8: reading a property of \<open>null\<close> or \<open>undefined\<close>, and calling what is not a
  function.
\<close>

definition cannot_read :: "string \<Rightarrow> string \<Rightarrow> string" where
  "cannot_read what property =
     ''Cannot read properties of '' @ what @ '' (reading '' @ [CHR 0x27] @ property @ [CHR 0x27] @ '')''"

definition not_a_function :: "string \<Rightarrow> string" where
  "not_a_function expression = expression @ '' is not a function''"

definition CACHE_DURATION :: int where
  "CACHE_DURATION = 3600000"

record cache_entry =
  ce_data :: "card list"
  ce_timestamp :: int

type_synonym cache = "(string \<times> cache_entry) list"

datatype search_result = Success "card list" | Failure string

fun success :: "search_result \<Rightarrow> bool" where
  "success (Success _) = True"
| "success (Failure _) = False"

definition first_type :: "string list option \<Rightarrow> string option" where
  "first_type ts = (case ts of Some (t # _) \<Rightarrow> Some t | _ \<Rightarrow> None)"

definition format_card :: "raw_card \<Rightarrow> card" where
  "format_card c =
     \<lparr> c_id = r_id c,
       c_name = r_name c,
       c_set = or_default (Option.bind (r_set c) rs_name) ''Unknown Set'',
       c_setCode = or_default (Option.bind (r_set c) rs_id) ''UNKNOWN'',
       c_number = or_default (r_number c) ''N/A'',
       c_imageUrl = or_default (Option.bind (r_images c) ri_large)
                      (or_default (Option.bind (r_images c) ri_small) []),
       c_rarity = or_default (r_rarity c) ''Common'',
       c_type = or_default (first_type (r_types c)) ''Unknown'',
       c_hp = or_default (r_hp c) ''N/A'',
       c_avg = Some (API_generateMockPrice (StringArg (r_name c))) \<rparr>"

text \<open>
  \<open>formatCardResults\<close> formats every card, stores the list in the cache under the key
  with the time read at that moment, and returns it.
\<close>

definition formatCardResults :: "raw_card list \<Rightarrow> string \<Rightarrow> int \<Rightarrow> cache \<Rightarrow> search_result \<times> cache" where
  "formatCardResults cards cacheKey now cache =
     (let formattedCards = map format_card cards
      in (Success formattedCards,
          AList.update cacheKey \<lparr> ce_data = formattedCards, ce_timestamp = now \<rparr> cache))"

definition cache_key :: "string \<Rightarrow> string \<Rightarrow> string \<Rightarrow> string" where
  "cache_key name set_name number = ''search_'' @ name @ ''_'' @ set_name @ ''_'' @ number"

definition build_query :: "string \<Rightarrow> string \<Rightarrow> string" where
  "build_query name set_name =
     ''name:\"'' @ trim name @ ''\"'' @
     (if set_name \<noteq> [] \<and> trim set_name \<noteq> []
      then '' series.name:\"'' @ trim set_name @ ''\"'' else [])"

text \<open>The cache entry that \<open>searchCards\<close> answers from: present and younger than the window.\<close>

definition fresh_entry :: "cache \<Rightarrow> string \<Rightarrow> int \<Rightarrow> cache_entry option" where
  "fresh_entry cache cacheKey now =
     (case map_of cache cacheKey of
        Some cached \<Rightarrow> if now - ce_timestamp cached < CACHE_DURATION then Some cached else None
      | None \<Rightarrow> None)"

text \<open>
  The statements of the \<open>try\<close> block of \<open>searchCards\<close> that follow the remote call,
  with the exception they may throw as \<open>Inl\<close>: \<open>result.data.data\<close> on a body that
  is \<open>null\<close>, \<open>filter\<close> on a \<open>data\<close> that is a non-empty string, and
  \<open>card.name.toLowerCase()\<close> on a card without a name. A \<open>data\<close> that is missing,
  empty or the empty string is falsy or of length zero and leads to the report that no
  cards were found, as a failed call does.
\<close>

definition search_reply ::
  "raw_card list option fetched \<Rightarrow> string \<Rightarrow> string \<Rightarrow> int \<Rightarrow> cache \<Rightarrow>
   string + search_result \<times> cache" where
  "search_reply result name cacheKey later cache =
     (case result of
        FetchOk (Some cards) \<Rightarrow>
          if cards \<noteq> [] then
            (let nameMatch = trim (toLowerCase name);
                 filteredCards =
                   filter (\<lambda>c. includes_str (toLowerCase (r_name c)) nameMatch) cards
             in if filteredCards = []
                then Inr (formatCardResults cards cacheKey later cache)
                else Inr (formatCardResults filteredCards cacheKey later cache))
          else Inr (Failure ''No cards found'', cache)
      | FetchOk None \<Rightarrow> Inr (Failure ''No cards found'', cache)
      | FetchError _ \<Rightarrow> Inr (Failure ''No cards found'', cache)
      | FetchOther NullBody \<Rightarrow> Inl (cannot_read ''null'' ''data'')
      | FetchOther NamelessCard \<Rightarrow> Inl (cannot_read ''undefined'' ''toLowerCase'')
      | FetchOther (DataText text) \<Rightarrow>
          if text = [] then Inr (Failure ''No cards found'', cache)
          else Inl (not_a_function ''result.data.data.filter''))"

text \<open>
  \<open>searchCards\<close>. \<open>now\<close> is \<open>Date.now()\<close> at the cache check, \<open>remote\<close> answers the
  query sent to \<open>/cards\<close>, \<open>later\<close> is \<open>Date.now()\<close> when the reply is stored. The
  result comes with the new cache and the list of queries sent to the remote catalogue.
  The \<open>catch\<close> block reports an exception as a failure with the exception's message.
\<close>

definition searchCards ::
  "cache \<Rightarrow> int \<Rightarrow> (string \<Rightarrow> raw_card list option http_outcome) \<Rightarrow> int \<Rightarrow>
   string \<Rightarrow> string \<Rightarrow> string \<Rightarrow> search_result \<times> cache \<times> string list" where
  "searchCards cache now remote later name set_name number =
     (let cacheKey = cache_key name set_name number
      in case fresh_entry cache cacheKey now of
           Some cached \<Rightarrow> (Success (ce_data cached), cache, [])
         | None \<Rightarrow>
             (let query = build_query name set_name;
                  result = fetchFromPokemonTCG (remote query)
              in case search_reply result name cacheKey later cache of
                   Inr (res, cache') \<Rightarrow> (res, cache', [query])
                 | Inl message \<Rightarrow> (Failure message, cache, [query])))"

datatype pricing_result = Priced enriched | Passed "raw_card option fetched"

text \<open>
  \<open>getCardPricing\<close>, given the reply to \<open>/cards/{id}\<close>. A body that is \<open>null\<close>
  throws at \<open>result.data.data\<close>; a \<open>data\<close> without a name (an object, or a non-empty
  string) throws in \<open>generateMockPrice\<close>, which gets \<open>undefined\<close>; the \<open>catch\<close>
  block returns the failure with the message. Every other reply that gives no card is
  returned as it is.
\<close>

definition getCardPricing :: "raw_card option http_outcome \<Rightarrow> string \<Rightarrow> pricing_result" where
  "getCardPricing reply condition =
     (case fetchFromPokemonTCG reply of
        FetchOk (Some c) \<Rightarrow> Priced (enrichCardWithPricing (format_card c) condition)
      | FetchOther NullBody \<Rightarrow> Passed (FetchError (cannot_read ''null'' ''data''))
      | FetchOther NamelessCard \<Rightarrow> Passed (FetchError (cannot_read ''undefined'' ''name''))
      | FetchOther (DataText text) \<Rightarrow>
          if text = [] then Passed (FetchOther (DataText text))
          else Passed (FetchError (cannot_read ''undefined'' ''name''))
      | result \<Rightarrow> Passed result)"

section \<open>The browser state\<close>

text \<open>
  Everything the three modules keep between calls: the two \<open>localStorage\<close> items of
  the Session Store, the \<open>sessionStorage\<close> items, the parts of the page the code
  writes, the two variables of the application module, the cache of the Lookup Service,
  the queries sent to the remote catalogue and the number of pending
  \<open>setTimeout\<close> callbacks. The page is taken to contain the six screen elements.
\<close>

record credential_record =
  u_id :: string
  u_name :: string
  u_email :: string
  u_password :: string

record session_record =
  s_id :: string
  s_name :: string
  s_email :: string
  s_loginTime :: string

record descriptor =
  d_name :: string
  d_set :: string
  d_number :: string
  d_condition :: string
  d_photo :: string

datatype screen = Auth | CardInput | Confirmation | Loading | Results | Error

record results_view =
  rv_name :: string
  rv_set :: string
  rv_condition :: string
  rv_price :: string
  rv_image :: string
  rv_breakdownLabel :: string
  rv_breakdownPrice :: string

record world =
  users :: "credential_record list option"
  session :: "session_record option"
  cardData :: "descriptor option"
  currentScreen :: "screen option"
  previousScreen :: "screen option"
  active :: "screen option"
  errorMessage :: string
  userMenuHidden :: bool
  userDisplayName :: string
  userMenuButtonShown :: bool
  searchDisabled :: bool
  resultsView :: "results_view option"
  searchInProgress :: bool
  currentCard :: "card option"
  cache :: cache
  requests :: "string list"
  timers :: nat

section \<open>Session Store (Auth module of ui.js)\<close>

datatype auth_result = AuthSuccess string "session_record option" | AuthFailure string

definition getStoredUsers :: "world \<Rightarrow> credential_record list option" where
  "getStoredUsers w = users w"

definition setStoredUsers :: "credential_record list \<Rightarrow> world \<Rightarrow> world" where
  "setStoredUsers us w = w\<lparr>users := Some us\<rparr>"

definition getSession :: "world \<Rightarrow> session_record option" where
  "getSession w = session w"

definition isLoggedIn :: "world \<Rightarrow> bool" where
  "isLoggedIn w = (getSession w \<noteq> None)"


text \<open>
  \<open>isValidEmail\<close> tests \<^verbatim>\<open>/^[^\s@]+@[^\s@]+\.[^\s@]+$/\<close>: the text up to the first
  \<open>@\<close> is not empty, what follows it has no further \<open>@\<close> and a dot that is neither its
  first nor its last character, and there is no white space anywhere.
\<close>

definition isValidEmail :: "string \<Rightarrow> bool" where
  "isValidEmail email =
     (let local_part = takeWhile (\<lambda>c. c \<noteq> CHR ''@'') email
      in case dropWhile (\<lambda>c. c \<noteq> CHR ''@'') email of
           [] \<Rightarrow> False
         | _ # domain \<Rightarrow>
             local_part \<noteq> [] \<and> \<not> list_ex is_space local_part \<and>
             CHR ''@'' \<notin> set domain \<and> \<not> list_ex is_space domain \<and>
             CHR ''.'' \<in> set (butlast (tl domain)))"

text \<open>\<open>getStoredUsers() || []\<close>.\<close>

definition stored_users :: "world \<Rightarrow> credential_record list" where
  "stored_users w = (case getStoredUsers w of Some us \<Rightarrow> us | None \<Rightarrow> [])"

text \<open>\<open>login\<close>; \<open>stamp\<close> is \<open>new Date().toISOString()\<close>.\<close>

definition login :: "string \<Rightarrow> string \<Rightarrow> string \<Rightarrow> world \<Rightarrow> auth_result \<times> world" where
  "login email password stamp w =
     (if email = [] \<or> password = [] then (AuthFailure ''Email and password are required'', w)
      else
        (let stored = stored_users w
         in case find (\<lambda>u. u_email u = email) stored of
              None \<Rightarrow> (AuthFailure ''User not found'', w)
            | Some user \<Rightarrow>
                if u_password user \<noteq> password then (AuthFailure ''Invalid password'', w)
                else
                  (let sess = \<lparr> s_id = u_id user, s_name = u_name user,
                                s_email = u_email user, s_loginTime = stamp \<rparr>
                   in (AuthSuccess ''Login successful'' (Some sess), w\<lparr>session := Some sess\<rparr>))))"

definition int_string :: "int \<Rightarrow> string" where
  "int_string i = (if i < 0 then ''-'' @ digits_of (nat (- i)) else digits_of (nat i))"

text \<open>\<open>signup\<close>; \<open>now\<close> is \<open>Date.now()\<close>, the new record's id is its decimal text.\<close>

definition signup :: "string \<Rightarrow> string \<Rightarrow> string \<Rightarrow> int \<Rightarrow> string \<Rightarrow> world \<Rightarrow> auth_result \<times> world" where
  "signup name email password now stamp w =
     (if name = [] \<or> email = [] \<or> password = [] then (AuthFailure ''All fields are required'', w)
      else if \<not> isValidEmail email then (AuthFailure ''Invalid email address'', w)
      else if length password < 6 then
        (AuthFailure ''Password must be at least 6 characters'', w)
      else
        (let stored = stored_users w
         in if list_ex (\<lambda>user. u_email user = email) stored then
              (AuthFailure ''Email already registered'', w)
            else
              (let newUser = \<lparr> u_id = int_string now, u_name = name,
                               u_email = email, u_password = password \<rparr>;
                   w' = setStoredUsers (stored @ [newUser]) w;
                   (ignored, w'') = login email password stamp w'
               in (AuthSuccess ''Account created successfully'' None, w''))))"

text \<open>\<open>Auth.init\<close> seeds the demo account when no user list is stored.\<close>

definition Auth_init :: "world \<Rightarrow> world" where
  "Auth_init w =
     (if getStoredUsers w = None
      then setStoredUsers [\<lparr> u_id = ''1'', u_name = ''Demo User'',
                             u_email = ''demo@example.com'', u_password = ''password123'' \<rparr>] w
      else w)"

section \<open>Workflow Controller (UI module of ui.js)\<close>

definition protectedScreens :: "screen list" where
  "protectedScreens = [CardInput, Confirmation, Loading, Results]"

text \<open>
  The part of \<open>showScreen\<close> after the guard: every screen loses the class \<open>active\<close>,
  the selected one gets it and is recorded in \<open>sessionStorage\<close>, the user menu is hidden.
\<close>

definition activate :: "screen \<Rightarrow> world \<Rightarrow> world" where
  "activate screenName w =
     w\<lparr>active := Some screenName, currentScreen := Some screenName, userMenuHidden := True\<rparr>"

function showScreen :: "screen \<Rightarrow> world \<Rightarrow> world"
  and showError :: "string \<Rightarrow> world \<Rightarrow> world" where
  "showScreen screenName w =
     (if screenName \<in> set protectedScreens \<and> \<not> isLoggedIn w
      then showScreen Auth (showError ''Please log in first to continue'' w)
      else activate screenName w)"
| "showError message w = showScreen Error (w\<lparr>errorMessage := message\<rparr>)"
  by pat_completeness auto
termination
  by (relation "measure (\<lambda>x. case x of
                   Inl (scr, w) \<Rightarrow> if scr \<in> set protectedScreens then 2 else 0
                 | Inr (m, w) \<Rightarrow> 1)")
     (auto simp: protectedScreens_def)

declare showScreen.simps [simp del]

definition showLoading :: "world \<Rightarrow> world" where
  "showLoading w = showScreen Loading w"

definition disableSearch :: "world \<Rightarrow> world" where
  "disableSearch w = w\<lparr>searchDisabled := True\<rparr>"

definition enableSearch :: "world \<Rightarrow> world" where
  "enableSearch w = w\<lparr>searchDisabled := False\<rparr>"








definition NO_IMAGE :: string where
  "NO_IMAGE = ''data:image/svg+xml,%3Csvg xmlns=\"http://www.w3.org/2000/svg\" width=\"200\" height=\"280\" viewBox=\"0 0 200 280\"%3E%3Crect width=\"200\" height=\"280\" fill=\"%23f0f0f0\"/%3E%3Ctext x=\"50%\" y=\"50%\" text-anchor=\"middle\" dy=\".3em\" fill=\"%23999\" font-family=\"Arial\" font-size=\"14\"%3ENo Image%3C/text%3E%3C/svg%3E''"

text \<open>
  \<open>showResults\<close> writes the card into the results screen and shows it. An enriched card
  always has \<open>adjustedPrice\<close> and \<open>priceBreakdown\<close>, both texts of \<open>toFixed\<close> and never
  empty, so the price shown is \<open>adjustedPrice\<close>.
\<close>

definition showResults :: "enriched \<Rightarrow> world \<Rightarrow> world" where
  "showResults shown w =
     showScreen Results
       (w\<lparr>resultsView := Some
           \<lparr> rv_name = c_name shown,
             rv_set = or_default (Some (c_set shown)) (or_default (Some (c_setCode shown)) ''N/A''),
             rv_condition = or_default (Some (selectedCondition shown)) ''N/A'',
             rv_price = ''$'' @ or_default (Some (adjustedPrice shown)) ''N/A'',
             rv_image = or_default (Some (c_imageUrl shown)) NO_IMAGE,
             rv_breakdownLabel =
               ''Base Price '' @ [CHR 0xD7] @ '' '' @ pb_conditionAdjustment (breakdown shown),
             rv_breakdownPrice = ''$'' @ pb_estimatedValue (breakdown shown) \<rparr>\<rparr>)"

section \<open>Application module\<close>

text \<open>
  \<open>generateMockPrice\<close> of the application module: the character codes of the two ends
  of the name, \<open>NaN\<close> for the empty name.
\<close>

definition App_generateMockPrice :: "string \<Rightarrow> number" where
  "App_generateMockPrice cardName =
     (case cardName of
        [] \<Rightarrow> NaN
      | c # cs \<Rightarrow>
          (let seed = (of_char c :: nat) + of_char (last (c # cs))
           in Num (of_nat (15 + (seed * 257) mod 486))))"

definition pokemonMap :: "(string \<times> string) list" where
  "pokemonMap =
     [(''charizard'', ''https://images.pokemontcg.io/base1/4.png''),
      (''blastoise'', ''https://images.pokemontcg.io/base1/2.png''),
      (''venusaur'', ''https://images.pokemontcg.io/base1/1.png''),
      (''dragonite'', ''https://images.pokemontcg.io/base1/5.png''),
      (''machamp'', ''https://images.pokemontcg.io/base1/7.png''),
      (''golem'', ''https://images.pokemontcg.io/base1/6.png''),
      (''arcanine'', ''https://images.pokemontcg.io/base1/23.png''),
      (''lapras'', ''https://images.pokemontcg.io/base1/16.png''),
      (''snorlax'', ''https://images.pokemontcg.io/base1/27.png''),
      (''alakazam'', ''https://images.pokemontcg.io/base1/1/1.png''),
      (''pikachu'', ''https://images.pokemontcg.io/base1/25.png'')]"

text \<open>
  \<open>generateMockImageUrl\<close>. For a name that \<open>Object.prototype\<close> defines the lookup yields
  a built-in function instead of a URL; the model writes \<open>function\<close> and the name for it.
\<close>

definition generateMockImageUrl :: "string \<Rightarrow> string" where
  "generateMockImageUrl pokemonName =
     (let normalizedName = toLowerCase pokemonName
      in case map_of pokemonMap normalizedName of
           Some url \<Rightarrow> url
         | None \<Rightarrow> if normalizedName \<in> set Object_prototype_names
                    then ''function '' @ normalizedName
                    else ''https://images.pokemontcg.io/base1/4.png'')"

text \<open>
  \<open>toUpperCase\<close> on 8-bit characters: small letters to capitals, the sharp s to \<open>SS\<close>.
  (The capitals of the micro sign and of y with diaeresis lie outside Latin-1; the model
  leaves the two characters as they are.)
\<close>

definition upper_char :: "char \<Rightarrow> string" where
  "upper_char c =
     (let n = (of_char c :: nat)
      in if (97 \<le> n \<and> n \<le> 122) \<or> (224 \<le> n \<and> n \<le> 246) \<or> (248 \<le> n \<and> n \<le> 254)
         then [char_of (n - 32)]
         else if n = 223 then ''SS'' else [c])"

definition toUpperCase :: "string \<Rightarrow> string" where
  "toUpperCase s = concat (map upper_char s)"

text \<open>\<open>createMockCardResult\<close>; \<open>now\<close> is \<open>Date.now()\<close>.\<close>

definition createMockCardResult :: "descriptor \<Rightarrow> int \<Rightarrow> card" where
  "createMockCardResult cd now =
     \<lparr> c_id = ''mock_'' @ int_string now,
       c_name = d_name cd,
       c_set = d_set cd,
       c_setCode = toUpperCase (take 2 (d_set cd)),
       c_number = or_default (Some (d_number cd)) ''1/102'',
       c_imageUrl = generateMockImageUrl (d_name cd),
       c_rarity = ''Holo Rare'',
       c_type = ''Varies'',
       c_hp = ''120'',
       c_avg = Some (App_generateMockPrice (d_name cd)) \<rparr>"

text \<open>
  \<open>performSearch\<close> suspends at its two \<open>await\<close>s, so it is three steps.
  \<open>performSearch_begin\<close> runs up to the first \<open>await\<close> and returns the descriptor when
  a search has started; \<open>performSearch_lookup\<close> is the call of \<open>API.searchCards\<close> on the
  cache of that moment; \<open>performSearch_settle\<close> is the rest of the \<open>try\<close> block with its
  \<open>catch\<close> and \<open>finally\<close>, given what the awaited call did: it returned a result
  (\<open>Inr\<close>) or threw (\<open>Inl\<close>).
\<close>

definition performSearch_begin :: "world \<Rightarrow> world \<times> descriptor option" where
  "performSearch_begin w =
     (if searchInProgress w then (w, None)
      else if \<not> isLoggedIn w then
        ((showError ''You must be logged in to search for cards'' w)\<lparr>timers := Suc (timers w)\<rparr>,
         None)
      else case cardData w of
             None \<Rightarrow> (showError ''Card data not found'' w, None)
           | Some cd \<Rightarrow>
               (showLoading (disableSearch (w\<lparr>searchInProgress := True\<rparr>)), Some cd))"


definition performSearch_lookup ::
  "descriptor \<Rightarrow> int \<Rightarrow> (string \<Rightarrow> raw_card list option http_outcome) \<Rightarrow> int \<Rightarrow> world \<Rightarrow>
   search_result \<times> world" where
  "performSearch_lookup cd now remote later w =
     (let (searchResult, cache', sent) =
            searchCards (cache w) now remote later (d_name cd) (d_set cd) (d_number cd)
      in (searchResult, w\<lparr>cache := cache', requests := requests w @ sent\<rparr>))"

definition choose_card :: "search_result \<Rightarrow> descriptor \<Rightarrow> int \<Rightarrow> card" where
  "choose_card searchResult cd now =
     (case searchResult of
        Failure _ \<Rightarrow> createMockCardResult cd now
      | Success (first # _) \<Rightarrow> first
      | Success [] \<Rightarrow> createMockCardResult cd now)"

definition performSearch_settle :: "string + search_result \<Rightarrow> descriptor \<Rightarrow> int \<Rightarrow> world \<Rightarrow> world" where
  "performSearch_settle outcome cd now w =
     (let w' = (case outcome of
                  Inr searchResult \<Rightarrow>
                    (let chosen = choose_card searchResult cd now;
                         enrichedCard = enrichCardWithPricing chosen (d_condition cd)
                     in showResults enrichedCard (w\<lparr>currentCard := Some chosen\<rparr>))
                | Inl thrown \<Rightarrow> showError ''Failed to fetch card pricing. Please try again.'' w)
      in enableSearch (w'\<lparr>searchInProgress := False\<rparr>))"

text \<open>A whole search that nothing interrupts.\<close>

definition performSearch ::
  "int \<Rightarrow> (string \<Rightarrow> raw_card list option http_outcome) \<Rightarrow> int \<Rightarrow> world \<Rightarrow> world" where
  "performSearch now remote later w =
     (case performSearch_begin w of
        (w1, None) \<Rightarrow> w1
      | (w1, Some cd) \<Rightarrow>
          (let (searchResult, w2) = performSearch_lookup cd now remote later w1
           in performSearch_settle (Inr searchResult) cd later w2))"



section \<open>The specification's wording\<close>

text \<open>
  The multiplier table as the specification states it: 1.0 for Near Mint, 0.75 for Lightly
  Played, 0.50 for Moderately Played and 0.50 for any other condition.
\<close>

definition spec_multiplier :: "string \<Rightarrow> rat" where
  "spec_multiplier condition =
     (if condition = ''Near Mint'' then 1
      else if condition = ''Lightly Played'' then 3 / 4
      else if condition = ''Moderately Played'' then 1 / 2
      else 1 / 2)"

text \<open>
  A remote call that errors or yields an empty data set: the request is rejected, the
  reply is not \<open>ok\<close>, or its body is \<open>null\<close> or has no \<open>data\<close> or an empty one.
\<close>

definition remote_failed_or_empty :: "raw_card list option http_outcome \<Rightarrow> bool" where
  "remote_failed_or_empty reply =
     (case reply of
        Rejected _ \<Rightarrow> True
      | Replied ok _ body \<Rightarrow> (if ok then body = None \<or> body = Some [] else True)
      | RepliedOther ok _ body \<Rightarrow> (if ok then body = NullBody \<or> body = DataText [] else True))"

text \<open>
  A reply to the search that is \<open>ok\<close> and brings data, but data on which the code
  throws: a card without a name, or a non-empty string.
\<close>

definition data_unusable :: "raw_card list option http_outcome \<Rightarrow> bool" where
  "data_unusable reply =
     (case reply of
        RepliedOther ok _ body \<Rightarrow>
          (if ok then (case body of NullBody \<Rightarrow> False | NamelessCard \<Rightarrow> True
                         | DataText text \<Rightarrow> text \<noteq> [])
           else False)
      | _ \<Rightarrow> False)"

text \<open>
  The name filter as the specification states it: the cards whose name contains the query
  name, ignoring case; when none does, all cards.
\<close>

definition spec_name_filter :: "string \<Rightarrow> raw_card list \<Rightarrow> raw_card list" where
  "spec_name_filter name cards =
     filter (\<lambda>c. sublist (toLowerCase name) (toLowerCase (r_name c))) cards"

definition spec_kept_cards :: "string \<Rightarrow> raw_card list \<Rightarrow> raw_card list" where
  "spec_kept_cards name cards =
     (if spec_name_filter name cards = [] then cards else spec_name_filter name cards)"

text \<open>The same with the white space at both ends of the query name removed first.\<close>

definition kept_cards :: "string \<Rightarrow> raw_card list \<Rightarrow> raw_card list" where
  "kept_cards name cards =
     (let matching = filter (\<lambda>c. sublist (trim (toLowerCase name)) (toLowerCase (r_name c))) cards
      in if matching = [] then cards else matching)"




section \<open>Example states\<close>

text \<open>
  A browser with empty storage and nothing displayed, and the same after \<open>Auth.init\<close>
  has seeded the demo account.
\<close>

definition empty_world :: world where
  "empty_world =
     \<lparr> users = None, session = None, cardData = None, currentScreen = None,
       previousScreen = None, active = None, errorMessage = [], userMenuHidden = False,
       userDisplayName = [], userMenuButtonShown = False, searchDisabled = False,
       resultsView = None, searchInProgress = False, currentCard = None, cache = [],
       requests = [], timers = 0 \<rparr>"

definition demo_world :: world where
  "demo_world = Auth_init empty_world"

definition demo_user :: credential_record where
  "demo_user = \<lparr> u_id = ''1'', u_name = ''Demo User'',
                 u_email = ''demo@example.com'', u_password = ''password123'' \<rparr>"

text \<open>
  The demo user signed in; the same with the Charizard descriptor of scenario C stored by
  the search form; and a remote catalogue that cannot be reached.
\<close>

definition demo_session :: session_record where
  "demo_session = \<lparr> s_id = ''1'', s_name = ''Demo User'', s_email = ''demo@example.com'',
                    s_loginTime = ''2024-01-01T00:00:00.000Z'' \<rparr>"

definition signed_in_world :: world where
  "signed_in_world = demo_world\<lparr>session := Some demo_session\<rparr>"

definition charizard_descriptor :: descriptor where
  "charizard_descriptor =
     \<lparr> d_name = ''Charizard'', d_set = ''Base Set'', d_number = [],
       d_condition = ''Near Mint'', d_photo = [] \<rparr>"

definition search_world :: world where
  "search_world = signed_in_world\<lparr>cardData := Some charizard_descriptor\<rparr>"

definition offline_remote :: "string \<Rightarrow> raw_card list option http_outcome" where
  "offline_remote query = Rejected ''Failed to fetch''"

text \<open>A catalogue card with nothing but id and name, and a remote catalogue that answers
  every query with two such cards.\<close>

definition named_card :: "string \<Rightarrow> raw_card" where
  "named_card n =
     \<lparr> r_id = ''base1-'' @ n, r_name = n, r_set = None, r_number = None, r_images = None,
       r_rarity = None, r_types = None, r_hp = None \<rparr>"

definition two_card_remote :: "string \<Rightarrow> raw_card list option http_outcome" where
  "two_card_remote query = Replied True ''200 OK'' (Some [named_card ''Abra'', named_card ''Mew''])"

text \<open>A remote catalogue whose reply holds a card without a name.\<close>

definition nameless_remote :: "string \<Rightarrow> raw_card list option http_outcome" where
  "nameless_remote query = RepliedOther True ''200 OK'' NamelessCard"

section \<open>Properties of the pricing functions\<close>

subsection \<open>Rendering of prices\<close>

lemma hundredths_exact: "hundredths (of_nat k / 100) = k"
proof -
  have "\<lfloor>(of_nat k / 100 :: rat) * 100 + 1 / 2\<rfloor> = int k"
    by (simp add: floor_eq_iff)
  then show ?thesis by (simp add: hundredths_def)
qed

lemma hundredths_whole: "hundredths (of_nat n) = 100 * n"
proof -
  have "(of_nat n :: rat) = of_nat (100 * n) / 100" by simp
  then show ?thesis by (simp only: hundredths_exact)
qed

lemma hundredths_three_quarters: "hundredths (of_nat n * (3 / 4)) = 75 * n"
proof -
  have "(of_nat n * (3 / 4) :: rat) = of_nat (75 * n) / 100" by simp
  then show ?thesis by (simp only: hundredths_exact)
qed

lemma hundredths_half: "hundredths (of_nat n * (1 / 2)) = 50 * n"
proof -
  have "(of_nat n * (1 / 2) :: rat) = of_nat (50 * n) / 100" by simp
  then show ?thesis by (simp only: hundredths_exact)
qed

subsection \<open>Doubles\<close>

lemma round_half_even_of_int: "round_half_even (of_int z) = z"
  by (simp add: round_half_even_def)

lemma exponent_le:
  assumes "0 < a"
  shows "2 powi (exponent a) \<le> a"
proof (cases "1 \<le> a")
  case True
  then have p: "0 < \<lfloor>a\<rfloor>" by simp
  have "bitlen \<lfloor>a\<rfloor> - 1 \<ge> 0" using p by (auto simp: bitlen_alt_def)
  then have "(2::rat) powi (bitlen \<lfloor>a\<rfloor> - 1) = 2 ^ nat (bitlen \<lfloor>a\<rfloor> - 1)"
    by (simp add: power_int_def)
  also have "\<dots> = of_int (2 ^ nat (bitlen \<lfloor>a\<rfloor> - 1))" by simp
  also have "\<dots> \<le> of_int \<lfloor>a\<rfloor>"
    using bitlen_bounds [OF p] by (intro of_int_le_iff [THEN iffD2]) simp
  also have "\<dots> \<le> a" by simp
  finally show ?thesis using True by (simp add: exponent_def)
next
  case False
  let ?c = "\<lceil>1 / a\<rceil>"
  have "1 < 1 / a" using False assms by simp
  then have c2: "2 \<le> ?c" by linarith
  then have p: "0 < ?c - 1" by simp
  have "?c - 1 < 2 ^ nat (bitlen (?c - 1))" using bitlen_bounds [OF p] by simp
  then have "?c \<le> 2 ^ nat (bitlen (?c - 1))" by simp
  then have i: "(of_int ?c :: rat) \<le> of_int (2 ^ nat (bitlen (?c - 1)))"
    by (rule of_int_le_iff [THEN iffD2])
  have "1 / a \<le> of_int ?c" by simp
  also note i
  also have "(of_int (2 ^ nat (bitlen (?c - 1))) :: rat) = 2 ^ nat (bitlen (?c - 1))" by simp
  finally have "1 / a \<le> 2 ^ nat (bitlen (?c - 1))" .
  then have "1 / 2 ^ nat (bitlen (?c - 1)) \<le> a"
    using assms by (simp add: field_simps)
  moreover have "(2::rat) powi (- bitlen (?c - 1)) = 1 / 2 ^ nat (bitlen (?c - 1))"
    using bitlen_nonneg [of "?c - 1"] by (simp add: power_int_def field_simps)
  ultimately show ?thesis using False by (simp add: exponent_def)
qed


lemma round_double_exact:
  assumes x: "x = of_int m * 2 powi k"
    and m: "\<bar>m\<bar> < 2 ^ 53"
    and k: "- 1074 \<le> k"
    and b: "\<bar>x\<bar> < 2 powi 1024"
  shows "round_double x = Num x"
proof (cases "x = 0")
  case True
  then show ?thesis by (simp add: round_double_def)
next
  case False
  let ?a = "\<bar>x\<bar>"
  let ?j = "max (exponent ?a - 52) (- 1074)"
  let ?q = "(2::rat) powi ?j"
  have a0: "0 < ?a" using False by simp
  have am: "?a = of_int \<bar>m\<bar> * 2 powi k"
    by (simp add: x abs_mult)
  have "of_int \<bar>m\<bar> < (2::rat) ^ 53"
    using m by (metis of_int_less_iff of_int_numeral of_int_power)
  then have "?a < 2 ^ 53 * 2 powi k"
    unfolding am by (intro mult_strict_right_mono) simp_all
  also have "\<dots> = 2 powi (53 + k)"
    by (simp add: power_int_add)
  finally have up: "?a < 2 powi (53 + k)" .
  have "2 powi (exponent ?a) < (2::rat) powi (53 + k)"
    using exponent_le [OF a0] up by (rule le_less_trans)
  then have e: "exponent ?a < 53 + k"
    by (metis linorder_not_less one_le_numeral power_int_increasing)
  then have jk: "?j \<le> k" using k by simp
  have q: "?a / ?q = of_int (\<bar>m\<bar> * 2 ^ nat (k - ?j))"
  proof -
    have "(2::rat) powi k = 2 powi ?j * 2 powi (k - ?j)"
      by (simp flip: power_int_add)
    also have "(2::rat) powi (k - ?j) = 2 ^ nat (k - ?j)"
      using jk by (simp add: power_int_def)
    finally have "(2::rat) powi k = ?q * 2 ^ nat (k - ?j)" .
    then have "?a = of_int \<bar>m\<bar> * (?q * 2 ^ nat (k - ?j))"
      using am by simp
    then have "?a / ?q = of_int \<bar>m\<bar> * 2 ^ nat (k - ?j)"
      by (simp add: field_simps)
    then show ?thesis by simp
  qed
  have r: "of_int (round_half_even (?a / ?q)) * ?q = ?a"
    unfolding q round_half_even_of_int
    using q by (simp add: field_simps)
  have nb: "\<not> 2 powi 1024 \<le> ?a" using b by simp
  have s: "(if x < 0 then - ?a else ?a) = x" by simp
  show ?thesis
    using False nb by (simp only: round_double_def Let_def r s if_False)
qed

lemma round_double_scaled:
  assumes "n * c < 2 ^ 53"
  shows "round_double (of_nat (n * c) / 4) = Num (of_nat (n * c) / 4)"
proof (rule round_double_exact [where m = "int (n * c)" and k = "- 2"])
  show "(of_nat (n * c) / 4 :: rat) = of_int (int (n * c)) * 2 powi (- 2)"
    by (simp add: power_int_minus)
  show "\<bar>int (n * c)\<bar> < 2 ^ 53"
    using assms by (metis abs_of_nat of_nat_less_numeral_power_cancel_iff)
  show "(- 1074 :: int) \<le> - 2" by simp
  have "(of_nat (n * c) :: rat) < 2 ^ 53"
    using assms by (metis of_nat_less_numeral_power_cancel_iff)
  then have "\<bar>of_nat (n * c) / 4 :: rat\<bar> < 2 ^ 53" by simp
  also have "(2 :: rat) ^ 53 < 2 ^ 1024" by (rule power_strict_increasing) simp_all
  finally show "\<bar>of_nat (n * c) / 4 :: rat\<bar> < 2 powi 1024" by (simp add: power_int_def)
qed

lemma times_whole:
  assumes "n < 2 ^ 51"
  shows "times_number (Num (of_nat n)) (Num 1) = Num (of_nat n)"
    and "times_number (Num (of_nat n)) (Num (3 / 4)) = Num (of_nat n * (3 / 4))"
    and "times_number (Num (of_nat n)) (Num (1 / 2)) = Num (of_nat n * (1 / 2))"
proof -
  have 4: "n * 4 < 2 ^ 53" and 3: "n * 3 < 2 ^ 53" and 2: "n * 2 < 2 ^ 53"
    using assms by simp_all
  have "round_double (of_nat n) = Num (of_nat n)"
    using round_double_scaled [OF 4] by simp
  then show "times_number (Num (of_nat n)) (Num 1) = Num (of_nat n)" by simp
  have "round_double (of_nat n * (3 / 4)) = Num (of_nat n * (3 / 4))"
    using round_double_scaled [OF 3] by simp
  then show "times_number (Num (of_nat n)) (Num (3 / 4)) = Num (of_nat n * (3 / 4))" by simp
  have "round_double (of_nat n * (1 / 2)) = Num (of_nat n * (1 / 2))"
    using round_double_scaled [OF 2] by simp
  then show "times_number (Num (of_nat n)) (Num (1 / 2)) = Num (of_nat n * (1 / 2))" by simp
qed

lemma is_double_whole: "n < 2 ^ 51 \<Longrightarrow> is_double (of_nat n)"
  using times_whole(1) [of n] by (simp add: is_double_def)

lemma is_double_sample: "is_double (91 / 2)"
  unfolding is_double_def
  by (rule round_double_exact [where m = 91 and k = "- 1"]) (simp_all add: power_int_minus)

lemma times_sample_lightly: "times_number (Num (91 / 2)) (Num (3 / 4)) = Num (91 / 2 * (3 / 4))"
proof -
  have "round_double (91 / 2 * (3 / 4)) = Num (91 / 2 * (3 / 4))"
    by (rule round_double_exact [where m = 273 and k = "- 3"]) (simp_all add: power_int_minus)
  then show ?thesis by simp
qed

subsection \<open>Rendering of prices, continued\<close>

lemma toFixed2_small: "0 \<le> x \<Longrightarrow> x < 10 ^ 21 \<Longrightarrow> toFixed2 (Num x) = fixed2 (hundredths x)"
  by (simp add: fixed_or_exponent_def)

lemma toFixed2_of_nat: "n < 2 ^ 51 \<Longrightarrow> toFixed2 (Num (of_nat n)) = fixed2 (100 * n)"
proof -
  assume "n < 2 ^ 51"
  then have "(of_nat n :: rat) < 2 ^ 51"
    by (metis of_nat_less_numeral_power_cancel_iff)
  then have "(of_nat n :: rat) < 10 ^ 21" by simp
  then show ?thesis by (simp add: toFixed2_small hundredths_whole del: toFixed2.simps)
qed

lemma fixed2_46900: "fixed2 46900 = ''469.00''"
  by (simp add: fixed2_def digits_of.simps digit_char_def)

lemma fixed2_16600: "fixed2 16600 = ''166.00''"
  by (simp add: fixed2_def digits_of.simps digit_char_def)

lemma toFixed2_469: "toFixed2 (Num 469) = ''469.00''"
  using toFixed2_of_nat [of 469] by (simp add: fixed2_46900 del: toFixed2.simps)

lemma toFixed2_166: "toFixed2 (Num 166) = ''166.00''"
  using toFixed2_of_nat [of 166] by (simp add: fixed2_16600 del: toFixed2.simps)

lemma times_166: "times_number (Num 166) (Num 1) = Num 166"
  using times_whole(1) [of 166] by simp

lemma toFixed2_sample: "toFixed2 (Num (91 / 2)) = ''45.50''"
proof -
  have "hundredths (91 / 2) = 4550" using hundredths_exact [of 4550] by simp
  then show ?thesis
    by (simp add: toFixed2_small fixed2_def digits_of.simps digit_char_def del: toFixed2.simps)
qed

lemma toFixed2_sample_lightly: "toFixed2 (Num (91 / 2 * (3 / 4))) = ''34.13''"
proof -
  have "hundredths (91 / 2 * (3 / 4)) = 3413"
    by (simp add: hundredths_def floor_eq_iff)
  then show ?thesis
    by (simp add: toFixed2_small fixed2_def digits_of.simps digit_char_def del: toFixed2.simps)
qed

subsection \<open>Condition multipliers\<close>

lemma lookup_multiplier_cases:
  "condition \<notin> set Object_prototype_names \<Longrightarrow>
   lookup_multiplier condition =
     Factor (if condition = ''Near Mint'' then 1
             else if condition = ''Lightly Played'' then 3 / 4 else 1 / 2)"
  by (simp add: lookup_multiplier_def conditionMultipliers_def)

lemma lookup_multiplier_inherited:
  "condition \<in> set Object_prototype_names \<Longrightarrow> lookup_multiplier condition = Inherited condition"
  by (auto simp: lookup_multiplier_def conditionMultipliers_def Object_prototype_names_def)

lemma enrich_fields:
  "selectedCondition (enrichCardWithPricing crd condition) = condition"
  "conditionMultiplier (enrichCardWithPricing crd condition) = lookup_multiplier condition"
  "basePrice (enrichCardWithPricing crd condition) = toFixed2 (base_price crd)"
  "adjustedPrice (enrichCardWithPricing crd condition) =
     toFixed2 (times_number (base_price crd) (multiplier_number (lookup_multiplier condition)))"
  "card.truncate (enrichCardWithPricing crd condition) = crd"
  by (simp_all add: enrichCardWithPricing_def Let_def card.extend_def enriched.fields_def
        card.truncate_def del: toFixed2.simps)

lemma enrich_card_fields:
  "c_name (enrichCardWithPricing crd condition) = c_name crd"
  "c_set (enrichCardWithPricing crd condition) = c_set crd"
  "c_setCode (enrichCardWithPricing crd condition) = c_setCode crd"
  "c_imageUrl (enrichCardWithPricing crd condition) = c_imageUrl crd"
  "c_avg (enrichCardWithPricing crd condition) = c_avg crd"
  by (simp_all add: enrichCardWithPricing_def Let_def card.extend_def)

lemma enrich_breakdown:
  "breakdown (enrichCardWithPricing crd condition) =
     \<lparr> pb_basePrice = toFixed2 (base_price crd),
       pb_conditionAdjustment =
         percent_string (times_number (multiplier_number (lookup_multiplier condition)) (Num 100)),
       pb_estimatedValue =
         toFixed2 (times_number (base_price crd) (multiplier_number (lookup_multiplier condition))) \<rparr>"
  by (simp add: enrichCardWithPricing_def Let_def card.extend_def enriched.fields_def
        del: toFixed2.simps percent_string.simps)


lemma lookup_multiplier_spec:
  "condition \<notin> set Object_prototype_names \<Longrightarrow>
   lookup_multiplier condition = Factor (spec_multiplier condition)"
  by (simp add: lookup_multiplier_cases spec_multiplier_def)

lemma hundredths_spec_multiplier:
  "rat_of_nat (hundredths (of_nat n * spec_multiplier condition)) =
   100 * (of_nat n * spec_multiplier condition)"
proof -
  show ?thesis
  proof (cases "condition = ''Near Mint''")
    case True
    then have s: "spec_multiplier condition = 1" by (simp add: spec_multiplier_def)
    show ?thesis by (simp add: s hundredths_whole)
  next
    case nm: False
    show ?thesis
    proof (cases "condition = ''Lightly Played''")
      case True
      then have s: "spec_multiplier condition = 3 / 4" by (simp add: spec_multiplier_def)
      show ?thesis by (simp only: s hundredths_three_quarters; simp)
    next
      case False
      with nm have s: "spec_multiplier condition = 1 / 2" by (simp add: spec_multiplier_def)
      show ?thesis by (simp only: s hundredths_half; simp)
    qed
  qed
qed

lemma API_generateMockPrice_string: "API_generateMockPrice (StringArg n) = Num 469"
  by (simp add: API_generateMockPrice_def)

lemma base_price_format_card: "base_price (format_card c) = Num 469"
  by (simp add: base_price_def format_card_def API_generateMockPrice_string)

lemma spec_multiplier_range: "0 \<le> spec_multiplier condition \<and> spec_multiplier condition \<le> 1"
  by (simp add: spec_multiplier_def)

lemma times_spec_multiplier:
  assumes "n < 2 ^ 51"
  shows "times_number (Num (of_nat n)) (Num (spec_multiplier condition)) =
           Num (of_nat n * spec_multiplier condition)"
proof (cases "condition = ''Near Mint''")
  case True
  then have s: "spec_multiplier condition = 1" by (simp add: spec_multiplier_def)
  show ?thesis using times_whole(1) [OF assms] by (simp only: s mult_1_right)
next
  case nm: False
  show ?thesis
  proof (cases "condition = ''Lightly Played''")
    case True
    then have s: "spec_multiplier condition = 3 / 4" by (simp add: spec_multiplier_def)
    show ?thesis using times_whole(2) [OF assms] by (simp only: s)
  next
    case False
    with nm have s: "spec_multiplier condition = 1 / 2" by (simp add: spec_multiplier_def)
    show ?thesis using times_whole(3) [OF assms] by (simp only: s)
  qed
qed

lemma price_ok_sample: "price_ok getSampleCard"
  by (simp add: price_ok_def number_ok_def getSampleCard_def is_double_sample)

subsection \<open>A price of two cents\<close>

text \<open>
  The double nearest to 0.02 lies above 0.02; its product with 0.75 is a tie between two
  doubles and is rounded to the one below 0.015, so that \<open>toFixed(2)\<close> prints 0.01.
\<close>

lemma bitlen_49: "bitlen 49 = 6"
  by (simp add: compute_bitlen)

lemma bitlen_66: "bitlen 66 = 7"
  by (simp add: compute_bitlen)

lemma round_double_fiftieth: "round_double (1 / 50) = Num (5764607523034235 / 2 ^ 58)"
proof -
  have e: "exponent (1 / 50) = - 6"
    by (simp add: exponent_def bitlen_49)
  have q: "(2::rat) powi (max (- 6 - 52) (- 1074)) = 1 / 2 ^ 58"
    by (simp add: power_int_minus)
  have f: "\<lfloor>(1 / 50) / (1 / 2 ^ 58) :: rat\<rfloor> = 5764607523034234"
    by (simp add: floor_eq_iff)
  have r: "round_half_even ((1 / 50) / (1 / 2 ^ 58)) = 5764607523034235"
    by (simp only: round_half_even_def Let_def f) simp
  have b: "\<not> (2::rat) powi 1024 \<le> 5764607523034235 * (1 / 2 ^ 58)"
    by simp
  have a: "\<bar>1 / 50 :: rat\<bar> = 1 / 50" by simp
  have n: "(1 / 50 :: rat) \<noteq> 0" "\<not> (1 / 50 :: rat) < 0" by simp_all
  show ?thesis
    by (simp only: round_double_def Let_def a n if_False e q r) (use b in simp)
qed

lemma cent_price_lightly:
  "times_number (Num (5764607523034235 / 2 ^ 58)) (Num (3 / 4)) =
     Num (8646911284551352 / 2 ^ 59) \<and>
   toFixed2 (Num (8646911284551352 / 2 ^ 59)) = ''0.01''"
proof -
  let ?p = "5764607523034235 / 2 ^ 58 * (3 / 4) :: rat"
  have c: "\<lceil>1 / ?p\<rceil> = 67" by (simp add: ceiling_eq_iff)
  have l: "\<not> 1 \<le> ?p" by simp
  have e: "exponent ?p = - 7"
    by (simp only: exponent_def l if_False c) (simp add: bitlen_66)
  have q: "(2::rat) powi (max (- 7 - 52) (- 1074)) = 1 / 2 ^ 59"
    by (simp add: power_int_minus)
  have f: "\<lfloor>?p / (1 / 2 ^ 59)\<rfloor> = 8646911284551352"
    by (simp add: floor_eq_iff)
  have r: "round_half_even (?p / (1 / 2 ^ 59)) = 8646911284551352"
    by (simp only: round_half_even_def Let_def f) simp
  have b: "\<not> (2::rat) powi 1024 \<le> 8646911284551352 * (1 / 2 ^ 59)"
    by simp
  have a: "\<bar>?p\<bar> = ?p" by simp
  have n: "?p \<noteq> 0" "\<not> ?p < 0" by simp_all
  have 1: "round_double ?p = Num (8646911284551352 / 2 ^ 59)"
    by (simp only: round_double_def Let_def a n if_False e q r) (use b in simp)
  have "\<lfloor>8646911284551352 / 2 ^ 59 * 100 + 1 / 2 :: rat\<rfloor> = 1"
    by (simp add: floor_eq_iff)
  then have h: "hundredths (8646911284551352 / 2 ^ 59) = 1"
    by (simp only: hundredths_def; simp)
  have t: "toFixed2 (Num (8646911284551352 / 2 ^ 59)) = fixed2 (hundredths (8646911284551352 / 2 ^ 59))"
    by (rule toFixed2_small) simp_all
  have x: "fixed2 1 = ''0.01''"
    by (simp add: fixed2_def digits_of.simps digit_char_def)
  have 2: "toFixed2 (Num (8646911284551352 / 2 ^ 59)) = ''0.01''"
    by (simp only: t h x)
  have 3: "times_number (Num (5764607523034235 / 2 ^ 58)) (Num (3 / 4)) =
     Num (8646911284551352 / 2 ^ 59)"
    by (simp only: times_number.simps 1)
  show ?thesis by (intro conjI 3 2)
qed

lemma enrich_two_cents:
  assumes "c_avg crd = Some (round_double (1 / 50))"
  shows "adjustedPrice (enrichCardWithPricing crd ''Lightly Played'') = ''0.01''"
proof -
  have t: "truthy (Num (5764607523034235 / 2 ^ 58))" by simp
  have bp: "base_price crd = Num (5764607523034235 / 2 ^ 58)"
    using t by (simp only: base_price_def assms round_double_fiftieth option.case if_True)
  have lp: "lookup_multiplier ''Lightly Played'' = Factor (3 / 4)"
    by (simp add: lookup_multiplier_def conditionMultipliers_def)
  show ?thesis
    by (simp only: enrich_fields bp lp multiplier_number.simps cent_price_lightly)
qed

text \<open>
  Claim C1 as stated does not hold. For the sample card (45.50) and the condition
  Lightly Played the product 45.50 times 0.75 is exactly 34.125, also as a double, but the
  returned \<open>adjustedPrice\<close> is the text 34.13: the code rounds the product to two
  decimals. And for a condition string that names a property of \<open>Object.prototype\<close>,
  such as \<open>constructor\<close>, the multiplier is not 0.50 but a built-in function, and
  \<open>adjustedPrice\<close> is the text NaN.
\<close>

theorem enrichCardWithPricing_counterexample:
  "price_ok getSampleCard \<and>
   basePrice (enrichCardWithPricing getSampleCard ''Lightly Played'') = ''45.50'' \<and>
   conditionMultiplier (enrichCardWithPricing getSampleCard ''Lightly Played'') = Factor (3 / 4) \<and>
   adjustedPrice (enrichCardWithPricing getSampleCard ''Lightly Played'') = ''34.13'' \<and>
   times_number (Num (91 / 2)) (Num (3 / 4)) = Num (91 / 2 * (3 / 4)) \<and>
   toFixed2 (Num (91 / 2 * (3 / 4))) = ''34.13'' \<and>
   (91 / 2 * (3 / 4) :: rat) \<noteq> 3413 / 100 \<and>
   conditionMultiplier (enrichCardWithPricing getSampleCard ''constructor'') =
     Inherited ''constructor'' \<and>
   adjustedPrice (enrichCardWithPricing getSampleCard ''constructor'') = ''NaN''"
proof -
  have bp: "base_price getSampleCard = Num (91 / 2)"
    by (simp add: base_price_def getSampleCard_def)
  have lp: "lookup_multiplier ''Lightly Played'' = Factor (3 / 4)"
    by (simp add: lookup_multiplier_def conditionMultipliers_def)
  have co: "lookup_multiplier ''constructor'' = Inherited ''constructor''"
    by (simp add: lookup_multiplier_def conditionMultipliers_def Object_prototype_names_def)
  have 1: "basePrice (enrichCardWithPricing getSampleCard ''Lightly Played'') = ''45.50''"
    by (simp only: enrich_fields bp toFixed2_sample)
  have 2: "conditionMultiplier (enrichCardWithPricing getSampleCard ''Lightly Played'') = Factor (3 / 4)"
    by (simp only: enrich_fields lp)
  have 3: "adjustedPrice (enrichCardWithPricing getSampleCard ''Lightly Played'') = ''34.13''"
    by (simp only: enrich_fields bp lp multiplier_number.simps times_sample_lightly
          toFixed2_sample_lightly)
  have 4: "(91 / 2 * (3 / 4) :: rat) \<noteq> 3413 / 100" by simp
  have 5: "conditionMultiplier (enrichCardWithPricing getSampleCard ''constructor'') =
     Inherited ''constructor''"
    by (simp only: enrich_fields co)
  have n: "times_number (Num (91 / 2)) NaN = NaN" by simp
  have 6: "adjustedPrice (enrichCardWithPricing getSampleCard ''constructor'') = ''NaN''"
    by (simp only: enrich_fields bp co multiplier_number.simps n toFixed2.simps)
  show ?thesis
    by (intro conjI price_ok_sample 1 2 3 4 5 6 times_sample_lightly toFixed2_sample_lightly)
qed

text \<open>
  Claim C1, amended. For every card whose price, if it has one, is a JavaScript Number,
  and every condition string that is not the name of a property inherited from
  \<open>Object.prototype\<close>, \<open>enrichCardWithPricing\<close> returns a copy of the card extended
  with the selected condition, with the multiplier 1.0 for Near Mint, 0.75 for Lightly
  Played and 0.50 for Moderately Played and for any other such string, with
  \<open>basePrice\<close> the base price printed by \<open>toFixed(2)\<close> and \<open>adjustedPrice\<close> the
  double product of base price and multiplier printed by \<open>toFixed(2)\<close> (rounded to the
  nearest hundredth, a tie upwards). When the base price is a whole number below
  \<open>2^51\<close> the product is exact and the printed hundredths are exactly the product.
\<close>

theorem enrichCardWithPricing_adjustedPrice:
  assumes "condition \<notin> set Object_prototype_names" and "price_ok crd"
  shows "conditionMultiplier (enrichCardWithPricing crd condition) =
           Factor (spec_multiplier condition) \<and>
         selectedCondition (enrichCardWithPricing crd condition) = condition \<and>
         card.truncate (enrichCardWithPricing crd condition) = crd \<and>
         basePrice (enrichCardWithPricing crd condition) = toFixed2 (base_price crd) \<and>
         adjustedPrice (enrichCardWithPricing crd condition) =
           toFixed2 (times_number (base_price crd) (Num (spec_multiplier condition))) \<and>
         (\<forall>n. base_price crd = Num (of_nat n) \<and> n < 2 ^ 51 \<longrightarrow>
            times_number (base_price crd) (Num (spec_multiplier condition)) =
              Num (of_nat n * spec_multiplier condition) \<and>
            basePrice (enrichCardWithPricing crd condition) = fixed2 (100 * n) \<and>
            adjustedPrice (enrichCardWithPricing crd condition) =
              fixed2 (hundredths (of_nat n * spec_multiplier condition)) \<and>
            rat_of_nat (hundredths (of_nat n * spec_multiplier condition)) / 100 =
              of_nat n * spec_multiplier condition)"
proof -
  note m = lookup_multiplier_spec [OF assms(1)]
  have adj: "adjustedPrice (enrichCardWithPricing crd condition) =
           toFixed2 (times_number (base_price crd) (Num (spec_multiplier condition)))"
    by (simp only: enrich_fields m multiplier_number.simps)
  have whole: "times_number (base_price crd) (Num (spec_multiplier condition)) =
              Num (of_nat n * spec_multiplier condition) \<and>
            basePrice (enrichCardWithPricing crd condition) = fixed2 (100 * n) \<and>
            adjustedPrice (enrichCardWithPricing crd condition) =
              fixed2 (hundredths (of_nat n * spec_multiplier condition)) \<and>
            rat_of_nat (hundredths (of_nat n * spec_multiplier condition)) / 100 =
              of_nat n * spec_multiplier condition"
    if b: "base_price crd = Num (of_nat n)" and n: "n < 2 ^ 51" for n
  proof -
    have t: "times_number (base_price crd) (Num (spec_multiplier condition)) =
              Num (of_nat n * spec_multiplier condition)"
      by (simp only: b times_spec_multiplier [OF n])
    have "(of_nat n :: rat) < 2 ^ 51"
      using n by (metis of_nat_less_numeral_power_cancel_iff)
    then have n21: "(of_nat n :: rat) < 10 ^ 21" by simp
    have "of_nat n * spec_multiplier condition \<le> of_nat n * 1"
      using spec_multiplier_range [of condition] by (intro mult_left_mono) simp_all
    then have up: "of_nat n * spec_multiplier condition < 10 ^ 21"
      using n21 by simp
    have lo: "0 \<le> of_nat n * spec_multiplier condition"
      using spec_multiplier_range [of condition] by simp
    have a: "adjustedPrice (enrichCardWithPricing crd condition) =
              fixed2 (hundredths (of_nat n * spec_multiplier condition))"
      by (simp only: adj t toFixed2_small [OF lo up])
    have bp: "basePrice (enrichCardWithPricing crd condition) = fixed2 (100 * n)"
      by (simp only: enrich_fields b toFixed2_of_nat [OF n])
    have h: "rat_of_nat (hundredths (of_nat n * spec_multiplier condition)) / 100 =
              of_nat n * spec_multiplier condition"
      by (simp add: hundredths_spec_multiplier)
    show ?thesis by (intro conjI t bp a h)
  qed
  have 6: "\<forall>n. base_price crd = Num (of_nat n) \<and> n < 2 ^ 51 \<longrightarrow>
            times_number (base_price crd) (Num (spec_multiplier condition)) =
              Num (of_nat n * spec_multiplier condition) \<and>
            basePrice (enrichCardWithPricing crd condition) = fixed2 (100 * n) \<and>
            adjustedPrice (enrichCardWithPricing crd condition) =
              fixed2 (hundredths (of_nat n * spec_multiplier condition)) \<and>
            rat_of_nat (hundredths (of_nat n * spec_multiplier condition)) / 100 =
              of_nat n * spec_multiplier condition"
  proof (intro allI impI)
    fix n
    assume "base_price crd = Num (of_nat n) \<and> n < 2 ^ 51"
    then show "times_number (base_price crd) (Num (spec_multiplier condition)) =
              Num (of_nat n * spec_multiplier condition) \<and>
            basePrice (enrichCardWithPricing crd condition) = fixed2 (100 * n) \<and>
            adjustedPrice (enrichCardWithPricing crd condition) =
              fixed2 (hundredths (of_nat n * spec_multiplier condition)) \<and>
            rat_of_nat (hundredths (of_nat n * spec_multiplier condition)) / 100 =
              of_nat n * spec_multiplier condition"
      using whole [of n] by (elim conjE)
  qed
  have 1: "conditionMultiplier (enrichCardWithPricing crd condition) =
           Factor (spec_multiplier condition)"
    by (simp only: enrich_fields m)
  show ?thesis by (intro conjI 1 enrich_fields(1) enrich_fields(5) enrich_fields(3) adj 6)
qed

theorem enrichCardWithPricing_adjustedPrice_witness:
  "''Lightly Played'' \<notin> set Object_prototype_names \<and>
   price_ok (getSampleCard\<lparr>c_avg := Some (Num 166)\<rparr>) \<and>
   base_price (getSampleCard\<lparr>c_avg := Some (Num 166)\<rparr>) = Num (of_nat 166) \<and>
   (166 :: nat) < 2 ^ 51 \<and>
   conditionMultiplier (enrichCardWithPricing (getSampleCard\<lparr>c_avg := Some (Num 166)\<rparr>)
      ''Lightly Played'') = Factor (3 / 4) \<and>
   basePrice (enrichCardWithPricing (getSampleCard\<lparr>c_avg := Some (Num 166)\<rparr>)
      ''Lightly Played'') = ''166.00'' \<and>
   adjustedPrice (enrichCardWithPricing (getSampleCard\<lparr>c_avg := Some (Num 166)\<rparr>)
      ''Lightly Played'') = ''124.50''"
proof -
  let ?c = "getSampleCard\<lparr>c_avg := Some (Num 166)\<rparr>"
  let ?r = "enrichCardWithPricing ?c ''Lightly Played''"
  have h: "''Lightly Played'' \<notin> set Object_prototype_names"
    by (simp add: Object_prototype_names_def)
  have d: "is_double 166" using is_double_whole [of 166] by simp
  have ok: "price_ok ?c"
    by (simp add: price_ok_def number_ok_def d)
  have b: "base_price ?c = Num (of_nat 166)"
    by (simp add: base_price_def)
  have n: "(166 :: nat) < 2 ^ 51" by simp
  have s: "spec_multiplier ''Lightly Played'' = 3 / 4"
    by (simp add: spec_multiplier_def)
  have hu: "hundredths (of_nat 166 * (3 / 4)) = 75 * 166"
    by (rule hundredths_three_quarters)
  have f1: "fixed2 (100 * 166) = ''166.00''"
    by (simp add: fixed2_def digits_of.simps digit_char_def)
  have f2: "fixed2 (75 * 166) = ''124.50''"
    by (simp add: fixed2_def digits_of.simps digit_char_def)
  note T = enrichCardWithPricing_adjustedPrice [OF h ok]
  have m: "conditionMultiplier ?r = Factor (3 / 4)"
    using T [THEN conjunct1] by (simp only: s)
  have W: "times_number (base_price ?c) (Num (spec_multiplier ''Lightly Played'')) =
             Num (of_nat 166 * spec_multiplier ''Lightly Played'') \<and>
           basePrice ?r = fixed2 (100 * 166) \<and>
           adjustedPrice ?r = fixed2 (hundredths (of_nat 166 * spec_multiplier ''Lightly Played'')) \<and>
           rat_of_nat (hundredths (of_nat 166 * spec_multiplier ''Lightly Played'')) / 100 =
             of_nat 166 * spec_multiplier ''Lightly Played''"
    by (rule T [THEN conjunct2, THEN conjunct2, THEN conjunct2, THEN conjunct2, THEN conjunct2,
                THEN spec, THEN mp, OF conjI [OF b n]])
  have b1: "basePrice ?r = ''166.00''"
    using W [THEN conjunct2, THEN conjunct1] by (simp only: f1)
  have a1: "adjustedPrice ?r = ''124.50''"
    using W [THEN conjunct2, THEN conjunct2, THEN conjunct1] by (simp only: s hu f2)
  show ?thesis by (intro conjI h ok b n m b1 a1)
qed

text \<open>
  Claim C10. Every card formatted by the search path (\<open>formatCardResults\<close>) and by the
  detail path (\<open>getCardPricing\<close>) gets the same base price \<open>prices.tcgplayer.avg\<close>,
  whatever its name: both pass the name string to \<open>generateMockPrice\<close> of api.js, a
  string has no \<open>name\<close> property, the seed is taken from \<open>pokemon\<close> and the price
  is 469.
\<close>

theorem api_price_is_constant:
  "API_generateMockPrice (StringArg n) = Num 469 \<and>
   c_avg (format_card c) = Some (Num 469) \<and>
   fst (formatCardResults cards cacheKey now store) = Success (map format_card cards) \<and>
   map c_avg (map format_card cards) = replicate (length cards) (Some (Num 469)) \<and>
   getCardPricing (Replied True status (Some c)) condition =
     Priced (enrichCardWithPricing (format_card c) condition) \<and>
   c_avg (enrichCardWithPricing (format_card c) condition) = Some (Num 469) \<and>
   basePrice (enrichCardWithPricing (format_card c) condition) = ''469.00''"
proof -
  have b: "c_avg (format_card c) = Some (Num 469)" for c
    by (simp add: format_card_def API_generateMockPrice_string)
  have c: "fst (formatCardResults cards cacheKey now store) = Success (map format_card cards)"
    by (simp add: formatCardResults_def Let_def)
  have d: "map c_avg (map format_card cards) = replicate (length cards) (Some (Num 469))"
    by (induction cards) (simp_all add: b)
  have e: "getCardPricing (Replied True status (Some c)) condition =
     Priced (enrichCardWithPricing (format_card c) condition)"
    by (simp add: getCardPricing_def)
  have f: "c_avg (enrichCardWithPricing (format_card c) condition) = Some (Num 469)"
    by (simp only: enrich_card_fields b)
  have g: "basePrice (enrichCardWithPricing (format_card c) condition) = ''469.00''"
    by (simp only: enrich_fields base_price_format_card toFixed2_469)
  show ?thesis by (intro conjI API_generateMockPrice_string b c d e f g)
qed


section \<open>Properties of the Session Store\<close>

lemma stored_users_demo: "stored_users demo_world = [demo_user]"
  by (simp add: demo_world_def Auth_init_def empty_world_def getStoredUsers_def
        setStoredUsers_def stored_users_def demo_user_def)

lemma find_email_None:
  "find (\<lambda>u. u_email u = email) us = None \<longleftrightarrow> (\<forall>u\<in>set us. u_email u \<noteq> email)"
  by (auto simp: find_None_iff)

text \<open>
  Claim C5. For every state of the stored users, \<open>login\<close> fails when the email or the
  password is empty; otherwise it fails with the not-found result when no stored user has
  the email; otherwise, for the first stored user with that email, it fails with the
  invalid-password result when the passwords differ, and when they agree it succeeds and
  stores one Session Record built from that user, which replaces whatever session there was.
  A failed login changes nothing.
\<close>

theorem login_cases:
  "(email = [] \<or> password = [] \<longrightarrow>
      login email password stamp w = (AuthFailure ''Email and password are required'', w)) \<and>
   (email \<noteq> [] \<and> password \<noteq> [] \<and> (\<forall>u\<in>set (stored_users w). u_email u \<noteq> email) \<longrightarrow>
      login email password stamp w = (AuthFailure ''User not found'', w)) \<and>
   (\<forall>user. email \<noteq> [] \<and> password \<noteq> [] \<and>
      find (\<lambda>u. u_email u = email) (stored_users w) = Some user \<longrightarrow>
        (u_password user \<noteq> password \<longrightarrow>
           login email password stamp w = (AuthFailure ''Invalid password'', w)) \<and>
        (u_password user = password \<longrightarrow>
           login email password stamp w =
             (AuthSuccess ''Login successful''
                (Some \<lparr> s_id = u_id user, s_name = u_name user, s_email = u_email user,
                        s_loginTime = stamp \<rparr>),
              w\<lparr>session := Some \<lparr> s_id = u_id user, s_name = u_name user,
                                   s_email = u_email user, s_loginTime = stamp \<rparr>\<rparr>)))"
proof (intro conjI allI impI)
  assume "email = [] \<or> password = []"
  then show "login email password stamp w = (AuthFailure ''Email and password are required'', w)"
    by (auto simp: login_def)
next
  assume "email \<noteq> [] \<and> password \<noteq> [] \<and> (\<forall>u\<in>set (stored_users w). u_email u \<noteq> email)"
  then show "login email password stamp w = (AuthFailure ''User not found'', w)"
    by (simp add: login_def Let_def find_email_None [symmetric])
next
  fix user
  assume "email \<noteq> [] \<and> password \<noteq> [] \<and>
      find (\<lambda>u. u_email u = email) (stored_users w) = Some user"
    and "u_password user \<noteq> password"
  then show "login email password stamp w = (AuthFailure ''Invalid password'', w)"
    by (simp add: login_def Let_def)
next
  fix user
  assume "email \<noteq> [] \<and> password \<noteq> [] \<and>
      find (\<lambda>u. u_email u = email) (stored_users w) = Some user"
    and "u_password user = password"
  then show "login email password stamp w =
             (AuthSuccess ''Login successful''
                (Some \<lparr> s_id = u_id user, s_name = u_name user, s_email = u_email user,
                        s_loginTime = stamp \<rparr>),
              w\<lparr>session := Some \<lparr> s_id = u_id user, s_name = u_name user,
                                   s_email = u_email user, s_loginTime = stamp \<rparr>\<rparr>)"
    by (simp add: login_def Let_def)
qed


lemma find_demo: "find (\<lambda>u. u_email u = ''demo@example.com'') (stored_users demo_world) = Some demo_user"
  by (simp add: stored_users_demo) (simp add: demo_user_def)

theorem login_cases_witness:
  "login [] ''password123'' ''t'' demo_world =
     (AuthFailure ''Email and password are required'', demo_world) \<and>
   login ''ann@x.com'' ''abc123'' ''t'' demo_world = (AuthFailure ''User not found'', demo_world) \<and>
   login ''demo@example.com'' ''letmein'' ''t'' demo_world =
     (AuthFailure ''Invalid password'', demo_world) \<and>
   login ''demo@example.com'' ''password123'' ''t'' demo_world =
     (AuthSuccess ''Login successful''
        (Some \<lparr> s_id = ''1'', s_name = ''Demo User'', s_email = ''demo@example.com'',
                s_loginTime = ''t'' \<rparr>),
      demo_world\<lparr>session := Some \<lparr> s_id = ''1'', s_name = ''Demo User'',
                                     s_email = ''demo@example.com'', s_loginTime = ''t'' \<rparr>\<rparr>)"
proof -
  have 1: "login [] ''password123'' ''t'' demo_world =
     (AuthFailure ''Email and password are required'', demo_world)"
    using login_cases [of "[]" "''password123''" "''t''" demo_world] by simp
  have "\<forall>u\<in>set (stored_users demo_world). u_email u \<noteq> ''ann@x.com''"
    by (simp add: stored_users_demo) (simp add: demo_user_def)
  then have 2: "login ''ann@x.com'' ''abc123'' ''t'' demo_world =
      (AuthFailure ''User not found'', demo_world)"
    using login_cases [of "''ann@x.com''" "''abc123''" "''t''" demo_world] by simp
  have 3: "login ''demo@example.com'' ''letmein'' ''t'' demo_world =
     (AuthFailure ''Invalid password'', demo_world)"
    using login_cases [of "''demo@example.com''" "''letmein''" "''t''" demo_world] find_demo
    by (simp add: demo_user_def)
  have 4: "login ''demo@example.com'' ''password123'' ''t'' demo_world =
     (AuthSuccess ''Login successful''
        (Some \<lparr> s_id = ''1'', s_name = ''Demo User'', s_email = ''demo@example.com'',
                s_loginTime = ''t'' \<rparr>),
      demo_world\<lparr>session := Some \<lparr> s_id = ''1'', s_name = ''Demo User'',
                                     s_email = ''demo@example.com'', s_loginTime = ''t'' \<rparr>\<rparr>)"
    using login_cases [of "''demo@example.com''" "''password123''" "''t''" demo_world] find_demo
    by (simp add: demo_user_def)
  show ?thesis by (intro conjI 1 2 3 4)
qed

lemma signup_unchanged_on_failure:
  "signup name email password now stamp w = (AuthFailure msg, w') \<Longrightarrow> w' = w"
  by (auto simp: signup_def Let_def split: if_splits prod.splits)

text \<open>
  Claim C4 as stated does not hold in its second half: with the demo account stored, a
  signup with the demo email and the password \<open>abc\<close> fails with the password message of
  the validation step, not with the duplicate-email message, because the checks of the
  fields come before the look-up of the email.
\<close>

theorem signup_counterexample:
  "stored_users demo_world = [demo_user] \<and>
   u_email demo_user = ''demo@example.com'' \<and>
   signup ''Ann'' ''demo@example.com'' ''abc'' 0 ''t'' demo_world =
     (AuthFailure ''Password must be at least 6 characters'', demo_world) \<and>
   fst (signup ''Ann'' ''demo@example.com'' ''abc'' 0 ''t'' demo_world) \<noteq>
     AuthFailure ''Email already registered''"
proof -
  have v: "isValidEmail ''demo@example.com''"
    by (simp add: isValidEmail_def is_space_def)
  have 1: "u_email demo_user = ''demo@example.com''"
    by (simp add: demo_user_def)
  have 2: "signup ''Ann'' ''demo@example.com'' ''abc'' 0 ''t'' demo_world =
     (AuthFailure ''Password must be at least 6 characters'', demo_world)"
    using v by (simp add: signup_def)
  have 3: "fst (signup ''Ann'' ''demo@example.com'' ''abc'' 0 ''t'' demo_world) \<noteq>
     AuthFailure ''Email already registered''"
    by (simp only: 2 fst_conv) simp
  show ?thesis by (intro conjI stored_users_demo 1 2 3)
qed

lemma isValidEmail_Nil: "\<not> isValidEmail []"
  by (simp add: isValidEmail_def)

text \<open>
  Claim C4, amended. For every state of the stored users, a signup with a password shorter
  than 6 characters fails with one of the three validation messages and leaves the state
  (the Credential Records and the session) unchanged; a signup with an email that a stored
  user has always fails and leaves the state unchanged, and the failure is the
  duplicate-email error whenever the input passes validation (name not empty, email well
  formed, password of 6 characters or more).
\<close>

theorem signup_rejections:
  "(length password < 6 \<longrightarrow>
      signup name email password now stamp w = (AuthFailure ''All fields are required'', w) \<or>
      signup name email password now stamp w = (AuthFailure ''Invalid email address'', w) \<or>
      signup name email password now stamp w =
        (AuthFailure ''Password must be at least 6 characters'', w)) \<and>
   (list_ex (\<lambda>u. u_email u = email) (stored_users w) \<longrightarrow>
      (\<exists>msg. signup name email password now stamp w = (AuthFailure msg, w)) \<and>
      (name \<noteq> [] \<and> isValidEmail email \<and> 6 \<le> length password \<longrightarrow>
         signup name email password now stamp w = (AuthFailure ''Email already registered'', w)))"
  using isValidEmail_Nil by (auto simp: signup_def Let_def)

theorem signup_rejections_witness:
  "length ''abc'' < 6 \<and>
   signup ''Ann'' ''ann@x.com'' ''abc'' 0 ''t'' demo_world =
     (AuthFailure ''Password must be at least 6 characters'', demo_world) \<and>
   list_ex (\<lambda>u. u_email u = ''demo@example.com'') (stored_users demo_world) \<and>
   ''Ann'' \<noteq> [] \<and> isValidEmail ''demo@example.com'' \<and> 6 \<le> length ''abc123'' \<and>
   signup ''Ann'' ''demo@example.com'' ''abc123'' 0 ''t'' demo_world =
     (AuthFailure ''Email already registered'', demo_world)"
proof -
  have v: "isValidEmail ''demo@example.com''"
    by (simp add: isValidEmail_def is_space_def)
  have v2: "isValidEmail ''ann@x.com''"
    by (simp add: isValidEmail_def is_space_def)
  have d: "list_ex (\<lambda>u. u_email u = ''demo@example.com'') (stored_users demo_world)"
    by (simp add: stored_users_demo) (simp add: demo_user_def)
  have a: "signup ''Ann'' ''ann@x.com'' ''abc'' 0 ''t'' demo_world \<noteq>
             (AuthFailure ''All fields are required'', demo_world)"
    using v2 by (simp add: signup_def)
  have b: "signup ''Ann'' ''ann@x.com'' ''abc'' 0 ''t'' demo_world \<noteq>
             (AuthFailure ''Invalid email address'', demo_world)"
    using v2 by (simp add: signup_def)
  have 1: "signup ''Ann'' ''ann@x.com'' ''abc'' 0 ''t'' demo_world =
     (AuthFailure ''Password must be at least 6 characters'', demo_world)"
    using signup_rejections [of "''abc''" "''Ann''" "''ann@x.com''" 0 "''t''" demo_world] a b
    by simp
  have 2: "signup ''Ann'' ''demo@example.com'' ''abc123'' 0 ''t'' demo_world =
     (AuthFailure ''Email already registered'', demo_world)"
    using signup_rejections [of "''abc123''" "''Ann''" "''demo@example.com''" 0 "''t''" demo_world]
      d v by simp
  show ?thesis using 1 2 d v by simp
qed


section \<open>Properties of the Lookup Service\<close>

lemma includes_str_sublist: "includes_str s t \<longleftrightarrow> sublist t s"
  by (induction s) (auto simp: sublist_Cons_right)

lemma searchCards_hit:
  "fresh_entry store (cache_key name set_name number) now = Some e \<Longrightarrow>
   searchCards store now remote later name set_name number = (Success (ce_data e), store, [])"
  by (simp add: searchCards_def Let_def)

lemma searchCards_miss:
  "fresh_entry store (cache_key name set_name number) now = None \<Longrightarrow>
   searchCards store now remote later name set_name number =
     (case search_reply (fetchFromPokemonTCG (remote (build_query name set_name))) name
             (cache_key name set_name number) later store of
        Inr (res, store') \<Rightarrow> (res, store', [build_query name set_name])
      | Inl message \<Rightarrow> (Failure message, store, [build_query name set_name]))"
  by (simp add: searchCards_def Let_def)

lemma search_reply_found:
  "cards \<noteq> [] \<Longrightarrow>
   search_reply (FetchOk (Some cards)) name key later store =
     Inr (Success (map format_card (kept_cards name cards)),
          AList.update key
            \<lparr> ce_data = map format_card (kept_cards name cards), ce_timestamp = later \<rparr> store)"
  by (simp add: search_reply_def Let_def formatCardResults_def kept_cards_def includes_str_sublist)

lemma search_reply_error:
  "search_reply (FetchError msg) name key later store = Inr (Failure ''No cards found'', store)"
  by (simp add: search_reply_def)

lemma search_reply_no_data:
  "search_reply (FetchOk None) name key later store = Inr (Failure ''No cards found'', store)"
  by (simp add: search_reply_def)

lemma search_reply_empty:
  "search_reply (FetchOk (Some [])) name key later store = Inr (Failure ''No cards found'', store)"
  by (simp add: search_reply_def)

lemma search_reply_other:
  "search_reply (FetchOther body) name key later store =
     (case body of
        NullBody \<Rightarrow> Inl (cannot_read ''null'' ''data'')
      | NamelessCard \<Rightarrow> Inl (cannot_read ''undefined'' ''toLowerCase'')
      | DataText text \<Rightarrow>
          if text = [] then Inr (Failure ''No cards found'', store)
          else Inl (not_a_function ''result.data.data.filter''))"
  by (simp add: search_reply_def split: other_body.split)

lemma search_reply_not_found:
  assumes "\<forall>c cs. result \<noteq> FetchOk (Some (c # cs))"
  shows "(\<exists>message. search_reply result name key later store = Inl message) \<or>
         (\<exists>message. search_reply result name key later store = Inr (Failure message, store))"
proof (cases result)
  case (FetchError msg)
  then show ?thesis by (simp add: search_reply_error)
next
  case (FetchOk body)
  show ?thesis
  proof (cases body)
    case None
    then show ?thesis using FetchOk by (simp add: search_reply_no_data)
  next
    case (Some cards)
    then have "cards = []" using assms FetchOk by (cases cards) auto
    then show ?thesis using FetchOk Some by (simp add: search_reply_empty)
  qed
next
  case (FetchOther body)
  then show ?thesis by (cases body) (simp_all add: search_reply_other)
qed

lemma searchCards_found:
  assumes "fresh_entry store (cache_key name set_name number) now = None"
    and "fetchFromPokemonTCG (remote (build_query name set_name)) = FetchOk (Some cards)"
    and "cards \<noteq> []"
  shows "searchCards store now remote later name set_name number =
           (Success (map format_card (kept_cards name cards)),
            AList.update (cache_key name set_name number)
              \<lparr> ce_data = map format_card (kept_cards name cards), ce_timestamp = later \<rparr> store,
            [build_query name set_name])"
  by (simp add: searchCards_miss [OF assms(1)] assms(2) search_reply_found [OF assms(3)])

lemma searchCards_failure:
  assumes "fresh_entry store (cache_key name set_name number) now = None"
    and "\<forall>c cs. fetchFromPokemonTCG (remote (build_query name set_name)) \<noteq> FetchOk (Some (c # cs))"
  shows "\<exists>message. searchCards store now remote later name set_name number =
           (Failure message, store, [build_query name set_name])"
  using search_reply_not_found [OF assms(2), of name "cache_key name set_name number" later store]
  by (auto simp: searchCards_miss [OF assms(1)])

lemma searchCards_no_cards:
  assumes "fresh_entry store (cache_key name set_name number) now = None"
    and "fetchFromPokemonTCG (remote (build_query name set_name)) = FetchError msg"
  shows "searchCards store now remote later name set_name number =
           (Failure ''No cards found'', store, [build_query name set_name])"
  by (simp add: searchCards_miss [OF assms(1)] assms(2) search_reply_error)

lemma searchCards_miss_sent:
  assumes "fresh_entry store (cache_key name set_name number) now = None"
  shows "snd (snd (searchCards store now remote later name set_name number)) =
           [build_query name set_name]"
  by (simp add: searchCards_miss [OF assms] split: sum.split prod.split)

lemma searchCards_hit_sent:
  "fresh_entry store (cache_key name set_name number) now = Some e \<Longrightarrow>
   snd (snd (searchCards store now remote later name set_name number)) = []"
  by (simp add: searchCards_hit)

lemma searchCards_asked:
  assumes "fresh_entry store (cache_key name set_name number) now = None"
  shows "(\<not> success (fst (searchCards store now remote later name set_name number))) =
           (remote_failed_or_empty (remote (build_query name set_name)) \<or>
            data_unusable (remote (build_query name set_name))) \<and>
         ((\<exists>cards. fst (searchCards store now remote later name set_name number) = Success cards) \<or>
          fst (searchCards store now remote later name set_name number) = Failure ''No cards found'' \<or>
          (\<exists>message.
             search_reply (fetchFromPokemonTCG (remote (build_query name set_name))) name
               (cache_key name set_name number) later store = Inl message \<and>
             fst (searchCards store now remote later name set_name number) = Failure message))"
proof (cases "remote (build_query name set_name)")
  case (Rejected msg)
  then show ?thesis
    by (simp add: searchCards_miss [OF assms] search_reply_error remote_failed_or_empty_def)
next
  case (Replied ok status body)
  show ?thesis
  proof (cases ok)
    case False
    then show ?thesis using Replied
      by (simp add: searchCards_miss [OF assms] search_reply_error remote_failed_or_empty_def)
  next
    case True
    show ?thesis
    proof (cases body)
      case None
      then show ?thesis using Replied True
        by (simp add: searchCards_miss [OF assms] search_reply_no_data remote_failed_or_empty_def)
    next
      case (Some cards)
      show ?thesis
      proof (cases cards)
        case Nil
        then show ?thesis using Replied True Some
          by (simp add: searchCards_miss [OF assms] search_reply_empty remote_failed_or_empty_def)
      next
        case (Cons c cs)
        then have "cards \<noteq> []" by simp
        then show ?thesis using Replied True Some
          by (simp add: searchCards_miss [OF assms] search_reply_found remote_failed_or_empty_def
                data_unusable_def)
      qed
    qed
  qed
next
  case (RepliedOther ok status body)
  show ?thesis
  proof (cases ok)
    case False
    then show ?thesis using RepliedOther
      by (simp add: searchCards_miss [OF assms] search_reply_error remote_failed_or_empty_def)
  next
    case True
    then show ?thesis using RepliedOther
      by (cases body)
        (simp_all add: searchCards_miss [OF assms] search_reply_other remote_failed_or_empty_def
           data_unusable_def)
  qed
qed

text \<open>
  Claim C7 as stated does not hold: when the remote catalogue answers 200 with a card that
  has no name, the call has not errored and its data set is not empty, yet
  \<open>searchCards\<close> answers with \<open>success: false\<close>: the filter throws on the card, and
  the \<open>catch\<close> block returns the message of the exception as the error.
\<close>

theorem searchCards_failure_counterexample:
  "fetchFromPokemonTCG (nameless_remote (build_query ''Abra'' [])) = FetchOther NamelessCard \<and>
   \<not> remote_failed_or_empty (nameless_remote (build_query ''Abra'' [])) \<and>
   \<not> success (fst (searchCards [] 0 nameless_remote 1 ''Abra'' [] [])) \<and>
   fst (searchCards [] 0 nameless_remote 1 ''Abra'' [] []) =
     Failure (cannot_read ''undefined'' ''toLowerCase'') \<and>
   cannot_read ''undefined'' ''toLowerCase'' \<noteq> ''No cards found''"
proof -
  have f: "fresh_entry [] (cache_key ''Abra'' [] []) 0 = None"
    by (simp add: fresh_entry_def)
  have 1: "fetchFromPokemonTCG (nameless_remote (build_query ''Abra'' [])) = FetchOther NamelessCard"
    by (simp add: nameless_remote_def)
  have 2: "\<not> remote_failed_or_empty (nameless_remote (build_query ''Abra'' []))"
    by (simp add: remote_failed_or_empty_def nameless_remote_def)
  have 3: "fst (searchCards [] 0 nameless_remote 1 ''Abra'' [] []) =
     Failure (cannot_read ''undefined'' ''toLowerCase'')"
    by (simp add: searchCards_miss [OF f] 1 search_reply_other)
  have 4: "\<not> success (fst (searchCards [] 0 nameless_remote 1 ''Abra'' [] []))"
    by (simp only: 3; simp)
  have 5: "cannot_read ''undefined'' ''toLowerCase'' \<noteq> ''No cards found''"
    by (simp add: cannot_read_def)
  show ?thesis by (intro conjI 1 2 3 4 5)
qed

text \<open>
  Claim C7, amended. \<open>searchCards\<close> answers with \<open>success: false\<close> exactly when it has
  sent its query to the remote catalogue and either the call errored or yielded nothing
  (a rejection, a reply that is not \<open>ok\<close>, a body that is \<open>null\<close>, or data that is
  missing or empty), or the reply brought data on which the code throws (a card without
  a name, a non-empty string). Its result is always a value, never an exception: a list
  of cards, the report that no cards were found, or, where the statements after the
  remote call throw, the failure whose error is the message of that exception.
\<close>

theorem searchCards_failure_iff:
  "(\<not> success (fst (searchCards store now remote later name set_name number))) =
     (snd (snd (searchCards store now remote later name set_name number)) =
        [build_query name set_name] \<and>
      (remote_failed_or_empty (remote (build_query name set_name)) \<or>
       data_unusable (remote (build_query name set_name)))) \<and>
   ((\<exists>cards. fst (searchCards store now remote later name set_name number) = Success cards) \<or>
    fst (searchCards store now remote later name set_name number) = Failure ''No cards found'' \<or>
    (\<exists>message.
       search_reply (fetchFromPokemonTCG (remote (build_query name set_name))) name
         (cache_key name set_name number) later store = Inl message \<and>
       fst (searchCards store now remote later name set_name number) = Failure message))"
proof (cases "fresh_entry store (cache_key name set_name number) now")
  case (Some e)
  then show ?thesis by (simp add: searchCards_hit)
next
  case None
  note a = searchCards_asked [OF None, of remote later]
  note s = searchCards_miss_sent [OF None, of remote later]
  have 1: "(\<not> success (fst (searchCards store now remote later name set_name number))) =
     (snd (snd (searchCards store now remote later name set_name number)) =
        [build_query name set_name] \<and>
      (remote_failed_or_empty (remote (build_query name set_name)) \<or>
       data_unusable (remote (build_query name set_name))))"
    by (simp only: s a [THEN conjunct1]; simp)
  show ?thesis by (intro conjI 1 a [THEN conjunct2])
qed

theorem searchCards_failure_iff_witness:
  "\<not> success (fst (searchCards [] 0 offline_remote 1 ''Abra'' [] [])) \<and>
   snd (snd (searchCards [] 0 offline_remote 1 ''Abra'' [] [])) = [build_query ''Abra'' []] \<and>
   remote_failed_or_empty (offline_remote (build_query ''Abra'' [])) \<and>
   success (fst (searchCards [] 0 two_card_remote 1 ''Abra'' [] [])) \<and>
   \<not> remote_failed_or_empty (two_card_remote (build_query ''Abra'' [])) \<and>
   \<not> data_unusable (two_card_remote (build_query ''Abra'' [])) \<and>
   \<not> success (fst (searchCards [] 0 nameless_remote 1 ''Abra'' [] [])) \<and>
   data_unusable (nameless_remote (build_query ''Abra'' []))"
proof -
  have s: "snd (snd (searchCards [] 0 remote 1 ''Abra'' [] [])) = [build_query ''Abra'' []]"
    for remote
    by (rule searchCards_miss_sent) (simp add: fresh_entry_def)
  have o: "remote_failed_or_empty (offline_remote (build_query ''Abra'' []))"
    by (simp add: remote_failed_or_empty_def offline_remote_def)
  have t: "\<not> remote_failed_or_empty (two_card_remote (build_query ''Abra'' []))"
    by (simp add: remote_failed_or_empty_def two_card_remote_def)
  have t': "\<not> data_unusable (two_card_remote (build_query ''Abra'' []))"
    by (simp add: data_unusable_def two_card_remote_def)
  have n: "data_unusable (nameless_remote (build_query ''Abra'' []))"
    by (simp add: data_unusable_def nameless_remote_def)
  have 1: "\<not> success (fst (searchCards [] 0 offline_remote 1 ''Abra'' [] []))"
    using searchCards_failure_iff [of "[]" 0 offline_remote 1 "''Abra''" "[]" "[]"] s o by blast
  have 2: "success (fst (searchCards [] 0 two_card_remote 1 ''Abra'' [] []))"
    using searchCards_failure_iff [of "[]" 0 two_card_remote 1 "''Abra''" "[]" "[]"] s t t' by blast
  have 3: "\<not> success (fst (searchCards [] 0 nameless_remote 1 ''Abra'' [] []))"
    using searchCards_failure_iff [of "[]" 0 nameless_remote 1 "''Abra''" "[]" "[]"] s n by blast
  show ?thesis by (intro conjI 1 2 3 s o t t' n)
qed


lemma is_space_lower_char: "is_space (lower_char c) = is_space c"
  by (auto simp: is_space_def lower_char_def Let_def)

lemma dropWhile_lower:
  "dropWhile is_space (map lower_char s) = map lower_char (dropWhile is_space s)"
  by (induction s) (simp_all add: is_space_lower_char)

lemma trim_toLowerCase: "trim (toLowerCase s) = toLowerCase (trim s)"
  by (simp only: trim_def toLowerCase_def dropWhile_lower rev_map)

lemma kept_cards_trimmed: "trim name = name \<Longrightarrow> kept_cards name cards = spec_kept_cards name cards"
  by (simp add: kept_cards_def spec_kept_cards_def spec_name_filter_def trim_toLowerCase Let_def)

lemma kept_cards_nonempty: "cards \<noteq> [] \<Longrightarrow> kept_cards name cards \<noteq> []"
  by (simp add: kept_cards_def Let_def)

lemma lower_abra: "toLowerCase ''Abra'' = ''abra''"
  by (simp add: toLowerCase_def lower_char_def char_of_eq_iff)

lemma lower_mew: "toLowerCase ''Mew'' = ''mew''"
  by (simp add: toLowerCase_def lower_char_def char_of_eq_iff)

lemma lower_space_mew: "toLowerCase '' mew'' = '' mew''"
  by (simp add: toLowerCase_def lower_char_def)

lemma lower_small_mew: "toLowerCase ''mew'' = ''mew''"
  by (simp add: toLowerCase_def lower_char_def)

lemma trim_space_mew: "trim '' mew'' = ''mew''"
  by (simp add: trim_def is_space_def)

text \<open>
  Claim C6 as stated does not hold: for the query name \<open>" mew"\<close> (a space in front) and
  the remote cards Abra and Mew, no card name contains the query name, so the claim
  promises the unfiltered pair; the code removes the space before it filters and returns
  Mew alone.
\<close>

theorem searchCards_filter_counterexample:
  "fst (searchCards [] 0 two_card_remote 1 '' mew'' [] []) =
     Success [format_card (named_card ''Mew'')] \<and>
   spec_name_filter '' mew'' [named_card ''Abra'', named_card ''Mew''] = [] \<and>
   spec_kept_cards '' mew'' [named_card ''Abra'', named_card ''Mew''] =
     [named_card ''Abra'', named_card ''Mew''] \<and>
   Success [format_card (named_card ''Mew'')] \<noteq>
     Success (map format_card (spec_kept_cards '' mew'' [named_card ''Abra'', named_card ''Mew'']))"
proof -
  let ?cards = "[named_card ''Abra'', named_card ''Mew'']"
  have f: "fresh_entry [] (cache_key '' mew'' [] []) 0 = None"
    by (simp add: fresh_entry_def)
  have r: "fetchFromPokemonTCG (two_card_remote (build_query '' mew'' [])) = FetchOk (Some ?cards)"
    by (simp add: two_card_remote_def)
  have k: "kept_cards '' mew'' ?cards = [named_card ''Mew'']"
    by (simp add: kept_cards_def trim_toLowerCase trim_space_mew lower_small_mew named_card_def
          lower_abra lower_mew includes_str_sublist [symmetric])
  have 1: "fst (searchCards [] 0 two_card_remote 1 '' mew'' [] []) =
     Success [format_card (named_card ''Mew'')]"
    using searchCards_found [where remote = two_card_remote and later = 1, OF f r] k by simp
  have 2: "spec_name_filter '' mew'' ?cards = []"
    by (simp add: spec_name_filter_def lower_space_mew named_card_def lower_abra lower_mew
          includes_str_sublist [symmetric])
  have 3: "spec_kept_cards '' mew'' ?cards = ?cards"
    by (simp add: spec_kept_cards_def 2)
  have 4: "Success [format_card (named_card ''Mew'')] \<noteq>
     Success (map format_card (spec_kept_cards '' mew'' ?cards))"
    by (simp only: 3) simp
  show ?thesis by (intro conjI 1 2 3 4)
qed

text \<open>
  Claim C6, amended. When \<open>searchCards\<close> asks the remote catalogue and gets a non-empty
  list, it keeps exactly the cards whose name contains, ignoring case, the query name with
  the white space of both ends removed, and when no card passes it returns all of them;
  so the result is never empty. For a query name without white space at its ends this is
  the filter of the claim as stated.
\<close>

theorem searchCards_filter:
  assumes "fresh_entry store (cache_key name set_name number) now = None"
    and "fetchFromPokemonTCG (remote (build_query name set_name)) = FetchOk (Some cards)"
    and "cards \<noteq> []"
  shows "fst (searchCards store now remote later name set_name number) =
           Success (map format_card (kept_cards name cards)) \<and>
         kept_cards name cards =
           (if filter (\<lambda>c. sublist (toLowerCase (trim name)) (toLowerCase (r_name c))) cards = []
            then cards
            else filter (\<lambda>c. sublist (toLowerCase (trim name)) (toLowerCase (r_name c))) cards) \<and>
         kept_cards name cards \<noteq> [] \<and>
         (trim name = name \<longrightarrow> kept_cards name cards = spec_kept_cards name cards)"
proof -
  have 1: "fst (searchCards store now remote later name set_name number) =
           Success (map format_card (kept_cards name cards))"
    using searchCards_found [where remote = remote and later = later, OF assms] by simp
  have 2: "kept_cards name cards =
           (if filter (\<lambda>c. sublist (toLowerCase (trim name)) (toLowerCase (r_name c))) cards = []
            then cards
            else filter (\<lambda>c. sublist (toLowerCase (trim name)) (toLowerCase (r_name c))) cards)"
    by (simp add: kept_cards_def trim_toLowerCase Let_def)
  have 3: "trim name = name \<longrightarrow> kept_cards name cards = spec_kept_cards name cards"
    by (simp add: kept_cards_trimmed)
  show ?thesis by (intro conjI 1 2 3 kept_cards_nonempty assms(3))
qed

theorem searchCards_filter_witness:
  "fresh_entry [] (cache_key '' mew'' [] []) 0 = None \<and>
   fetchFromPokemonTCG (two_card_remote (build_query '' mew'' [])) =
     FetchOk (Some [named_card ''Abra'', named_card ''Mew'']) \<and>
   [named_card ''Abra'', named_card ''Mew''] \<noteq> [] \<and>
   fst (searchCards [] 0 two_card_remote 1 '' mew'' [] []) =
     Success [format_card (named_card ''Mew'')] \<and>
   trim ''mew'' = ''mew'' \<and>
   kept_cards ''mew'' [named_card ''Abra'', named_card ''Mew''] =
     spec_kept_cards ''mew'' [named_card ''Abra'', named_card ''Mew'']"
proof -
  let ?cards = "[named_card ''Abra'', named_card ''Mew'']"
  have f: "fresh_entry [] (cache_key '' mew'' [] []) 0 = None"
    by (simp add: fresh_entry_def)
  have r: "fetchFromPokemonTCG (two_card_remote (build_query '' mew'' [])) = FetchOk (Some ?cards)"
    by (simp add: two_card_remote_def)
  have n: "?cards \<noteq> []" by simp
  have k: "kept_cards '' mew'' ?cards = [named_card ''Mew'']"
    by (simp add: kept_cards_def trim_toLowerCase trim_space_mew lower_small_mew named_card_def
          lower_abra lower_mew includes_str_sublist [symmetric])
  have t: "trim ''mew'' = ''mew''" by (simp add: trim_def is_space_def)
  have f2: "fresh_entry [] (cache_key ''mew'' [] []) 0 = None"
    by (simp add: fresh_entry_def)
  have r2: "fetchFromPokemonTCG (two_card_remote (build_query ''mew'' [])) = FetchOk (Some ?cards)"
    by (simp add: two_card_remote_def)
  have 1: "fst (searchCards [] 0 two_card_remote 1 '' mew'' [] []) =
     Success [format_card (named_card ''Mew'')]"
    using searchCards_filter [where remote = two_card_remote and later = 1, OF f r n] k by simp
  have 2: "kept_cards ''mew'' ?cards = spec_kept_cards ''mew'' ?cards"
    using searchCards_filter [where remote = two_card_remote and later = 1, OF f2 r2 n] t
    by blast
  show ?thesis by (intro conjI f r n 1 t 2)
qed


lemma fresh_entry_Some:
  "fresh_entry store key now = Some e \<longleftrightarrow>
   map_of store key = Some e \<and> now - ce_timestamp e < CACHE_DURATION"
  by (auto simp: fresh_entry_def split: option.splits)

lemma fresh_entry_of_entry:
  "map_of store key = Some e \<Longrightarrow>
   fresh_entry store key now = (if now - ce_timestamp e < CACHE_DURATION then Some e else None)"
  by (simp add: fresh_entry_def)

lemma searchCards_success_cached:
  assumes "fst (searchCards store now remote later name set_name number) = Success found"
  shows "\<exists>e. map_of (fst (snd (searchCards store now remote later name set_name number)))
               (cache_key name set_name number) = Some e \<and>
             ce_data e = found \<and>
             (fresh_entry store (cache_key name set_name number) now = None \<longrightarrow>
                ce_timestamp e = later)"
proof (cases "fresh_entry store (cache_key name set_name number) now")
  case (Some e)
  then have "map_of store (cache_key name set_name number) = Some e"
    by (simp add: fresh_entry_Some)
  then show ?thesis using assms Some by (simp add: searchCards_hit)
next
  case None
  show ?thesis
  proof (cases "\<exists>c cs. fetchFromPokemonTCG (remote (build_query name set_name)) = FetchOk (Some (c # cs))")
    case True
    then obtain c cs where
      f: "fetchFromPokemonTCG (remote (build_query name set_name)) = FetchOk (Some (c # cs))"
      by blast
    have "c # cs \<noteq> []" by simp
    from searchCards_found [where remote = remote and later = later, OF None f this] assms
    show ?thesis using None by (simp add: update_conv')
  next
    case False
    then obtain message where
      "searchCards store now remote later name set_name number =
         (Failure message, store, [build_query name set_name])"
      using searchCards_failure [OF None, of remote later] by blast
    then show ?thesis using assms by simp
  qed
qed

text \<open>
  Claim C2 as stated does not hold for every search: a search whose remote call fails
  stores nothing, so the same search repeated two milliseconds later sends its query
  again.
\<close>

theorem cached_search_counterexample:
  "fst (searchCards [] 0 offline_remote 1 ''Pikachu'' ''Base'' []) = Failure ''No cards found'' \<and>
   (2 :: int) - 1 < CACHE_DURATION \<and>
   snd (snd (searchCards (fst (snd (searchCards [] 0 offline_remote 1 ''Pikachu'' ''Base'' [])))
                 2 offline_remote 3 ''Pikachu'' ''Base'' [])) =
     [build_query ''Pikachu'' ''Base'']"
proof -
  have f: "fresh_entry [] (cache_key ''Pikachu'' ''Base'' []) now = None" for now
    by (simp add: fresh_entry_def)
  have o: "fetchFromPokemonTCG (offline_remote (build_query ''Pikachu'' ''Base'')) =
             FetchError ''Failed to fetch''"
    by (simp add: offline_remote_def)
  have s: "searchCards [] now offline_remote later ''Pikachu'' ''Base'' [] =
             (Failure ''No cards found'', [], [build_query ''Pikachu'' ''Base''])" for now later
    using f o by (rule searchCards_no_cards)
  have w: "(2 :: int) - 1 < CACHE_DURATION" by (simp add: CACHE_DURATION_def)
  show ?thesis using w by (simp add: s)
qed

text \<open>
  Claim C2, amended. After a \<open>searchCards\<close> call that returned cards, the cache holds an
  entry for the triple with exactly these cards (stamped with the time of storing when
  the call had to ask the remote catalogue). A second call with the same triple made
  less than one hour after that stamp returns the identical result, leaves the cache as it
  is and sends nothing; a second call made an hour or more after the stamp sends the
  query again.
\<close>

theorem cached_search_within_window:
  assumes "fst (searchCards store now remote later name set_name number) = Success found"
  shows "\<exists>e. map_of (fst (snd (searchCards store now remote later name set_name number)))
               (cache_key name set_name number) = Some e \<and>
             ce_data e = found \<and>
             (fresh_entry store (cache_key name set_name number) now = None \<longrightarrow>
                ce_timestamp e = later) \<and>
             (\<forall>now2 remote2 later2.
                (now2 - ce_timestamp e < CACHE_DURATION \<longrightarrow>
                   searchCards (fst (snd (searchCards store now remote later name set_name number)))
                     now2 remote2 later2 name set_name number =
                   (Success found,
                    fst (snd (searchCards store now remote later name set_name number)), [])) \<and>
                (\<not> now2 - ce_timestamp e < CACHE_DURATION \<longrightarrow>
                   snd (snd (searchCards
                               (fst (snd (searchCards store now remote later name set_name number)))
                               now2 remote2 later2 name set_name number)) =
                   [build_query name set_name]))"
proof -
  let ?store1 = "fst (snd (searchCards store now remote later name set_name number))"
  let ?key = "cache_key name set_name number"
  from searchCards_success_cached [OF assms]
  obtain e where e: "map_of ?store1 ?key = Some e" "ce_data e = found"
    "fresh_entry store ?key now = None \<longrightarrow> ce_timestamp e = later"
    by (elim exE conjE)
  have hit: "searchCards ?store1 now2 remote2 later2 name set_name number = (Success found, ?store1, [])"
    if "now2 - ce_timestamp e < CACHE_DURATION" for now2 remote2 later2
  proof -
    have "fresh_entry ?store1 ?key now2 = Some e"
      using that by (simp only: fresh_entry_of_entry [OF e(1)] if_True)
    from searchCards_hit [OF this, of remote2 later2] show ?thesis
      by (simp only: e(2))
  qed
  have miss: "snd (snd (searchCards ?store1 now2 remote2 later2 name set_name number)) =
                [build_query name set_name]"
    if "\<not> now2 - ce_timestamp e < CACHE_DURATION" for now2 remote2 later2
  proof -
    have "fresh_entry ?store1 ?key now2 = None"
      using that by (simp only: fresh_entry_of_entry [OF e(1)] if_False)
    then show ?thesis by (rule searchCards_miss_sent)
  qed
  show ?thesis
  proof (intro exI conjI allI)
    show "map_of ?store1 ?key = Some e" by (rule e(1))
    show "ce_data e = found" by (rule e(2))
    show "fresh_entry store ?key now = None \<longrightarrow> ce_timestamp e = later" by (rule e(3))
  next
    fix now2 remote2 later2
    show "now2 - ce_timestamp e < CACHE_DURATION \<longrightarrow>
          searchCards ?store1 now2 remote2 later2 name set_name number =
            (Success found, ?store1, [])"
      by (intro impI) (rule hit)
    show "\<not> now2 - ce_timestamp e < CACHE_DURATION \<longrightarrow>
          snd (snd (searchCards ?store1 now2 remote2 later2 name set_name number)) =
            [build_query name set_name]"
      by (intro impI) (rule miss)
  qed
qed


theorem cached_search_within_window_witness:
  "fst (searchCards [] 0 two_card_remote 5 ''Abra'' [] []) =
     Success [format_card (named_card ''Abra'')] \<and>
   (1000 :: int) - 5 < CACHE_DURATION \<and>
   searchCards (fst (snd (searchCards [] 0 two_card_remote 5 ''Abra'' [] [])))
     1000 offline_remote 1001 ''Abra'' [] [] =
     (Success [format_card (named_card ''Abra'')],
      fst (snd (searchCards [] 0 two_card_remote 5 ''Abra'' [] [])), []) \<and>
   \<not> (3600005 :: int) - 5 < CACHE_DURATION \<and>
   snd (snd (searchCards (fst (snd (searchCards [] 0 two_card_remote 5 ''Abra'' [] [])))
               3600005 offline_remote 3600006 ''Abra'' [] [])) =
     [build_query ''Abra'' []]"
proof -
  let ?cards = "[named_card ''Abra'', named_card ''Mew'']"
  let ?found = "[format_card (named_card ''Abra'')]"
  let ?store1 = "fst (snd (searchCards [] 0 two_card_remote 5 ''Abra'' [] []))"
  have f: "fresh_entry [] (cache_key ''Abra'' [] []) 0 = None"
    by (simp add: fresh_entry_def)
  have r: "fetchFromPokemonTCG (two_card_remote (build_query ''Abra'' [])) = FetchOk (Some ?cards)"
    by (simp add: two_card_remote_def)
  have t: "trim ''abra'' = ''abra''" by (simp add: trim_def is_space_def)
  have k: "kept_cards ''Abra'' ?cards = [named_card ''Abra'']"
    by (simp add: kept_cards_def lower_abra t named_card_def lower_mew
          includes_str_sublist [symmetric])
  have n: "?cards \<noteq> []" by simp
  have A: "fst (searchCards [] 0 two_card_remote 5 ''Abra'' [] []) = Success ?found"
    using searchCards_found [where remote = two_card_remote and later = 5, OF f r n] k by simp
  have w1: "(1000 :: int) - 5 < CACHE_DURATION" by (simp add: CACHE_DURATION_def)
  have w2: "\<not> (3600005 :: int) - 5 < CACHE_DURATION" by (simp add: CACHE_DURATION_def)
  from cached_search_within_window [OF A]
  obtain e where m: "map_of ?store1 (cache_key ''Abra'' [] []) = Some e"
    and da: "ce_data e = ?found"
    and ts: "fresh_entry [] (cache_key ''Abra'' [] []) 0 = None \<longrightarrow> ce_timestamp e = 5"
    and all: "\<forall>now2 remote2 later2.
                (now2 - ce_timestamp e < CACHE_DURATION \<longrightarrow>
                   searchCards ?store1 now2 remote2 later2 ''Abra'' [] [] =
                   (Success ?found, ?store1, [])) \<and>
                (\<not> now2 - ce_timestamp e < CACHE_DURATION \<longrightarrow>
                   snd (snd (searchCards ?store1 now2 remote2 later2 ''Abra'' [] [])) =
                   [build_query ''Abra'' []])"
    by (elim exE conjE)
  have e5: "ce_timestamp e = 5" using ts f by (rule mp)
  have 1: "searchCards ?store1 1000 offline_remote 1001 ''Abra'' [] [] =
             (Success ?found, ?store1, [])"
    by (rule all [THEN spec, THEN spec, THEN spec, of 1000 offline_remote 1001, unfolded e5,
                  THEN conjunct1, THEN mp, OF w1])
  have 2: "snd (snd (searchCards ?store1 3600005 offline_remote 3600006 ''Abra'' [] [])) =
             [build_query ''Abra'' []]"
    by (rule all [THEN spec, THEN spec, THEN spec, of 3600005 offline_remote 3600006, unfolded e5,
                  THEN conjunct2, THEN mp, OF w2])
  show ?thesis by (intro conjI A w1 1 w2 2)
qed


section \<open>Properties of the Workflow Controller\<close>

lemma showScreen_open:
  "screenName \<notin> set protectedScreens \<or> isLoggedIn w \<Longrightarrow>
   showScreen screenName w = activate screenName w"
  by (subst showScreen.simps) auto

lemma isLoggedIn_activate: "isLoggedIn (activate screenName w) = isLoggedIn w"
  by (simp add: isLoggedIn_def getSession_def activate_def)

lemma showError_eq: "showError message w = activate Error (w\<lparr>errorMessage := message\<rparr>)"
  by (simp add: showScreen_open protectedScreens_def)

lemma showScreen_redirect:
  "screenName \<in> set protectedScreens \<Longrightarrow> \<not> isLoggedIn w \<Longrightarrow>
   showScreen screenName w =
     activate Auth (activate Error (w\<lparr>errorMessage := ''Please log in first to continue''\<rparr>))"
  by (subst showScreen.simps) (simp add: showError_eq showScreen_open protectedScreens_def)

lemma showScreen_cases:
  "showScreen screenName w =
     (if screenName \<in> set protectedScreens \<and> \<not> isLoggedIn w
      then activate Auth (activate Error (w\<lparr>errorMessage := ''Please log in first to continue''\<rparr>))
      else activate screenName w)"
  by (simp add: showScreen_redirect showScreen_open)


lemma showScreen_searchInProgress:
  "searchInProgress (showScreen screenName w) = searchInProgress w"
  by (simp add: showScreen_cases activate_def)

lemma showScreen_requests: "requests (showScreen screenName w) = requests w"
  by (simp add: showScreen_cases activate_def)




















section \<open>Properties of the search workflow\<close>

lemma begin_guarded: "searchInProgress w \<Longrightarrow> performSearch_begin w = (w, None)"
  by (simp add: performSearch_begin_def)

lemma showError_fields:
  "searchInProgress (showError message w) = searchInProgress w"
  "requests (showError message w) = requests w"
  "session (showError message w) = session w"
  by (simp_all add: showError_eq activate_def del: showError.simps)

lemma begin_unguarded:
  "\<not> searchInProgress w \<Longrightarrow>
   requests (fst (performSearch_begin w)) = requests w \<and>
   (case snd (performSearch_begin w) of
      None \<Rightarrow> \<not> searchInProgress (fst (performSearch_begin w)) \<and>
               (\<not> isLoggedIn w \<or> cardData w = None)
    | Some cd \<Rightarrow> searchInProgress (fst (performSearch_begin w)) \<and>
                  isLoggedIn w \<and> cardData w = Some cd)"
  by (simp add: performSearch_begin_def showLoading_def disableSearch_def showError_fields
        showScreen_searchInProgress showScreen_requests split: option.split
        del: showError.simps)

lemma lookup_keeps_guard:
  "searchInProgress (snd (performSearch_lookup cd now remote later w)) = searchInProgress w"
  by (simp add: performSearch_lookup_def Let_def split: prod.split)

lemma settle_clears_guard:
  "\<not> searchInProgress (performSearch_settle outcome cd now w) \<and>
   \<not> searchDisabled (performSearch_settle outcome cd now w)"
  by (simp add: performSearch_settle_def Let_def enableSearch_def)

lemma settle_requests:
  "requests (performSearch_settle outcome cd now w) = requests w"
  by (simp add: performSearch_settle_def Let_def enableSearch_def showResults_def
        showError_fields showScreen_requests split: sum.split del: showError.simps)

lemma performSearch_None:
  "snd (performSearch_begin w) = None \<Longrightarrow>
   performSearch now remote later w = fst (performSearch_begin w)"
  by (cases "performSearch_begin w") (simp add: performSearch_def)

lemma performSearch_Some:
  "snd (performSearch_begin w) = Some cd \<Longrightarrow>
   performSearch now remote later w =
     performSearch_settle
       (Inr (fst (performSearch_lookup cd now remote later (fst (performSearch_begin w)))))
       cd later (snd (performSearch_lookup cd now remote later (fst (performSearch_begin w))))"
  by (cases "performSearch_begin w") (simp add: performSearch_def split: prod.split)

lemma performSearch_clears_guard:
  "\<not> searchInProgress w \<Longrightarrow> \<not> searchInProgress (performSearch now remote later w)"
proof -
  assume g: "\<not> searchInProgress w"
  show ?thesis
  proof (cases "snd (performSearch_begin w)")
    case None
    then show ?thesis using begin_unguarded [OF g] by (simp add: performSearch_None)
  next
    case (Some cd)
    then show ?thesis by (simp add: performSearch_Some settle_clears_guard)
  qed
qed

lemma performSearch_no_call:
  "snd (performSearch_begin w) = None \<Longrightarrow>
   requests (performSearch now remote later w) = requests (fst (performSearch_begin w))"
  by (simp add: performSearch_None)

text \<open>
  Claim C3. While \<open>searchInProgress\<close> is set, \<open>performSearch\<close> returns at once and
  changes nothing: no request, no message, no state change. Otherwise its first step sends
  no request yet and either stops with the guard still clear (no session, or no stored
  descriptor) or sets the guard and goes on to the lookup; the lookup leaves the guard
  set; and the last step clears the guard and enables the search button again whatever
  the lookup did, a result of either kind or an exception. So after a whole run the guard
  is clear.
\<close>

theorem search_is_single_flight:
  "(searchInProgress w \<longrightarrow>
      performSearch_begin w = (w, None) \<and> performSearch now remote later w = w) \<and>
   (\<not> searchInProgress w \<longrightarrow>
      requests (fst (performSearch_begin w)) = requests w \<and>
      (case snd (performSearch_begin w) of
         None \<Rightarrow> \<not> searchInProgress (fst (performSearch_begin w)) \<and>
                  (\<not> isLoggedIn w \<or> cardData w = None) \<and>
                  requests (performSearch now remote later w) = requests w
       | Some cd \<Rightarrow> searchInProgress (fst (performSearch_begin w)) \<and>
                     isLoggedIn w \<and> cardData w = Some cd) \<and>
      \<not> searchInProgress (performSearch now remote later w)) \<and>
   searchInProgress (snd (performSearch_lookup cd now remote later w)) = searchInProgress w \<and>
   \<not> searchInProgress (performSearch_settle outcome cd now w) \<and>
   \<not> searchDisabled (performSearch_settle outcome cd now w)"
proof -
  have 1: "searchInProgress w \<longrightarrow>
      performSearch_begin w = (w, None) \<and> performSearch now remote later w = w"
    by (simp add: begin_guarded performSearch_None)
  have 2: "\<not> searchInProgress w \<longrightarrow>
      requests (fst (performSearch_begin w)) = requests w \<and>
      (case snd (performSearch_begin w) of
         None \<Rightarrow> \<not> searchInProgress (fst (performSearch_begin w)) \<and>
                  (\<not> isLoggedIn w \<or> cardData w = None) \<and>
                  requests (performSearch now remote later w) = requests w
       | Some cd \<Rightarrow> searchInProgress (fst (performSearch_begin w)) \<and>
                     isLoggedIn w \<and> cardData w = Some cd) \<and>
      \<not> searchInProgress (performSearch now remote later w)"
  proof
    assume g: "\<not> searchInProgress w"
    show "requests (fst (performSearch_begin w)) = requests w \<and>
      (case snd (performSearch_begin w) of
         None \<Rightarrow> \<not> searchInProgress (fst (performSearch_begin w)) \<and>
                  (\<not> isLoggedIn w \<or> cardData w = None) \<and>
                  requests (performSearch now remote later w) = requests w
       | Some cd \<Rightarrow> searchInProgress (fst (performSearch_begin w)) \<and>
                     isLoggedIn w \<and> cardData w = Some cd) \<and>
      \<not> searchInProgress (performSearch now remote later w)"
      using begin_unguarded [OF g] performSearch_clears_guard [OF g, of now remote later]
        performSearch_no_call [of w now remote later]
      by (auto split: option.splits)
  qed
  show ?thesis
    by (intro conjI 1 2 lookup_keeps_guard settle_clears_guard [THEN conjunct1]
          settle_clears_guard [THEN conjunct2])
qed


lemma search_world_facts:
  "isLoggedIn search_world" "\<not> searchInProgress search_world"
  "cardData search_world = Some charizard_descriptor" "cache search_world = []"
  by (simp_all add: search_world_def signed_in_world_def isLoggedIn_def getSession_def
        demo_world_def Auth_init_def setStoredUsers_def getStoredUsers_def empty_world_def)

theorem search_is_single_flight_witness:
  "searchInProgress (search_world\<lparr>searchInProgress := True\<rparr>) \<and>
   performSearch_begin (search_world\<lparr>searchInProgress := True\<rparr>) =
     (search_world\<lparr>searchInProgress := True\<rparr>, None) \<and>
   \<not> searchInProgress search_world \<and>
   snd (performSearch_begin search_world) = Some charizard_descriptor \<and>
   searchInProgress (fst (performSearch_begin search_world)) \<and>
   requests (fst (performSearch_begin search_world)) = requests search_world \<and>
   \<not> searchInProgress (performSearch 0 offline_remote 1 search_world)"
proof -
  let ?busy = "search_world\<lparr>searchInProgress := True\<rparr>"
  have b: "searchInProgress ?busy" by simp
  have 1: "performSearch_begin ?busy = (?busy, None)"
    using search_is_single_flight [of ?busy] b by blast
  note f = search_world_facts
  have 2: "requests (fst (performSearch_begin search_world)) = requests search_world \<and>
      (case snd (performSearch_begin search_world) of
         None \<Rightarrow> \<not> searchInProgress (fst (performSearch_begin search_world)) \<and>
                  (\<not> isLoggedIn search_world \<or> cardData search_world = None) \<and>
                  requests (performSearch 0 offline_remote 1 search_world) = requests search_world
       | Some cd \<Rightarrow> searchInProgress (fst (performSearch_begin search_world)) \<and>
                     isLoggedIn search_world \<and> cardData search_world = Some cd) \<and>
      \<not> searchInProgress (performSearch 0 offline_remote 1 search_world)"
    using search_is_single_flight [of search_world 0 offline_remote 1] f(2) by blast
  have 3: "snd (performSearch_begin search_world) = Some charizard_descriptor \<and>
           searchInProgress (fst (performSearch_begin search_world))"
    using 2 f(1) f(3) by (auto split: option.splits)
  show ?thesis using b 1 2 3 f(2) by blast
qed

lemma begin_starts:
  "\<not> searchInProgress w \<Longrightarrow> isLoggedIn w \<Longrightarrow> cardData w = Some cd \<Longrightarrow>
   performSearch_begin w = (activate Loading (w\<lparr>searchInProgress := True, searchDisabled := True\<rparr>), Some cd)"
  by (simp add: performSearch_begin_def showLoading_def disableSearch_def showScreen_cases
        isLoggedIn_def getSession_def)

lemma mock_price_charizard: "App_generateMockPrice ''Charizard'' = Num 166"
  by (simp add: App_generateMockPrice_def)

lemma mock_price_ends:
  "n1 \<noteq> [] \<and> n2 \<noteq> [] \<and> hd n1 = hd n2 \<and> last n1 = last n2 \<longrightarrow>
   App_generateMockPrice n1 = App_generateMockPrice n2"
  by (cases n1; cases n2) (auto simp: App_generateMockPrice_def Let_def)


lemma choose_card_fallback:
  "\<not> success r \<or> r = Success [] \<Longrightarrow> choose_card r cd now = createMockCardResult cd now"
  by (cases r) (auto simp: choose_card_def)

lemma settle_shows:
  assumes "isLoggedIn w"
  shows "currentCard (performSearch_settle (Inr r) cd now w) = Some (choose_card r cd now) \<and>
         active (performSearch_settle (Inr r) cd now w) = Some Results \<and>
         map_option rv_price (resultsView (performSearch_settle (Inr r) cd now w)) =
           Some (''$'' @ or_default
                   (Some (adjustedPrice (enrichCardWithPricing (choose_card r cd now) (d_condition cd))))
                   ''N/A'')"
proof -
  have l: "isLoggedIn (w\<lparr>currentCard := c, resultsView := v\<rparr>)" for c v
    using assms by (simp add: isLoggedIn_def getSession_def)
  show ?thesis
    by (simp add: performSearch_settle_def Let_def enableSearch_def showResults_def
          showScreen_cases l activate_def del: or_default.simps)
qed

lemma enrich_mock_charizard:
  assumes "d_name cd = ''Charizard''"
  shows "basePrice (enrichCardWithPricing (createMockCardResult cd now) ''Near Mint'') = ''166.00'' \<and>
         adjustedPrice (enrichCardWithPricing (createMockCardResult cd now) ''Near Mint'') = ''166.00'' \<and>
         conditionMultiplier (enrichCardWithPricing (createMockCardResult cd now) ''Near Mint'') = Factor 1"
proof -
  have b: "base_price (createMockCardResult cd now) = Num 166"
    by (simp add: base_price_def createMockCardResult_def assms mock_price_charizard)
  have m: "lookup_multiplier ''Near Mint'' = Factor 1"
    by (simp add: lookup_multiplier_def conditionMultipliers_def)
  have t: "times_number (Num 166) (Num 1) = Num 166" by (rule times_166)
  show ?thesis
    by (simp only: enrich_fields b m multiplier_number.simps t toFixed2_166; simp)
qed

text \<open>
  Claim C8. A signed-in search for Charizard, Base Set, Near Mint whose lookup finds no
  fresh cache entry and whose remote call fails or brings no cards ends with the synthetic
  card of \<open>createMockCardResult\<close> as current card. Its price is a function of the codes
  of the first and the last character of the name only, \<open>15 + ((67 + 100) * 257) mod 486
  = 166\<close> for Charizard; after enrichment the multiplier is 1.0, \<open>adjustedPrice\<close> equals
  \<open>basePrice\<close>, and the results screen shows 166.00 dollars.
\<close>

theorem charizard_fallback:
  assumes "d_name cd = ''Charizard''" and "d_set cd = ''Base Set''"
    and "d_condition cd = ''Near Mint''"
    and "isLoggedIn w" and "\<not> searchInProgress w" and "cardData w = Some cd"
    and "fresh_entry (cache w) (cache_key ''Charizard'' ''Base Set'' (d_number cd)) now = None"
    and "\<forall>c cs. fetchFromPokemonTCG (remote (build_query ''Charizard'' ''Base Set'')) \<noteq>
                  FetchOk (Some (c # cs))"
  shows "currentCard (performSearch now remote later w) = Some (createMockCardResult cd later) \<and>
         c_avg (createMockCardResult cd later) = Some (App_generateMockPrice ''Charizard'') \<and>
         App_generateMockPrice ''Charizard'' =
           Num (of_nat (15 + ((of_char CHR ''C'' + of_char CHR ''d'') * 257) mod 486)) \<and>
         (\<forall>n1 n2. n1 \<noteq> [] \<and> n2 \<noteq> [] \<and> hd n1 = hd n2 \<and> last n1 = last n2 \<longrightarrow>
            App_generateMockPrice n1 = App_generateMockPrice n2) \<and>
         basePrice (enrichCardWithPricing (createMockCardResult cd later) ''Near Mint'') = ''166.00'' \<and>
         adjustedPrice (enrichCardWithPricing (createMockCardResult cd later) ''Near Mint'') =
           basePrice (enrichCardWithPricing (createMockCardResult cd later) ''Near Mint'') \<and>
         conditionMultiplier (enrichCardWithPricing (createMockCardResult cd later) ''Near Mint'') =
           Factor 1 \<and>
         map_option rv_price (resultsView (performSearch now remote later w)) = Some ''$166.00'' \<and>
         active (performSearch now remote later w) = Some Results"
proof -
  let ?w1 = "activate Loading (w\<lparr>searchInProgress := True, searchDisabled := True\<rparr>)"
  let ?q = "build_query ''Charizard'' ''Base Set''"
  let ?w2 = "?w1\<lparr>cache := cache w, requests := requests ?w1 @ [?q]\<rparr>"
  from searchCards_failure
         [where remote = remote and later = later and store = "cache w" and now = now
            and name = "''Charizard''" and set_name = "''Base Set''" and number = "d_number cd",
          OF assms(7,8)]
  obtain message where
    s: "searchCards (cache w) now remote later ''Charizard'' ''Base Set'' (d_number cd) =
             (Failure message, cache w, [?q])"
    by blast
  let ?r = "Failure message"
  have b: "performSearch_begin w = (?w1, Some cd)"
    using assms(4,5,6) by (simp add: begin_starts)
  have c1: "cache ?w1 = cache w" by (simp add: activate_def)
  have l: "performSearch_lookup cd now remote later ?w1 = (?r, ?w2)"
    by (simp only: performSearch_lookup_def c1 assms(1,2) s Let_def prod.case)
  have l2: "isLoggedIn ?w2"
    using assms(4) by (simp add: isLoggedIn_def getSession_def activate_def)
  have p: "performSearch now remote later w = performSearch_settle (Inr ?r) cd later ?w2"
    by (simp only: performSearch_def b l prod.case option.case Let_def)
  have ch: "choose_card ?r cd later = createMockCardResult cd later"
    by (simp add: choose_card_fallback)
  note e = enrich_mock_charizard [OF assms(1), of later]
  note sh = settle_shows [OF l2, of ?r cd later]
  have 1: "currentCard (performSearch now remote later w) = Some (createMockCardResult cd later)"
    using sh by (simp only: p ch)
  have 2: "c_avg (createMockCardResult cd later) = Some (App_generateMockPrice ''Charizard'')"
    by (simp add: createMockCardResult_def assms(1))
  have 3: "App_generateMockPrice ''Charizard'' =
           Num (of_nat (15 + ((of_char CHR ''C'' + of_char CHR ''d'') * 257) mod 486))"
    by (simp add: App_generateMockPrice_def)
  have 4: "\<forall>n1 n2. n1 \<noteq> [] \<and> n2 \<noteq> [] \<and> hd n1 = hd n2 \<and> last n1 = last n2 \<longrightarrow>
            App_generateMockPrice n1 = App_generateMockPrice n2"
    using mock_price_ends by blast
  have 5: "adjustedPrice (enrichCardWithPricing (createMockCardResult cd later) ''Near Mint'') =
           basePrice (enrichCardWithPricing (createMockCardResult cd later) ''Near Mint'')"
    using e by simp
  have 6: "map_option rv_price (resultsView (performSearch now remote later w)) = Some ''$166.00''"
    using sh e by (simp only: p ch assms(3); simp)
  have 7: "active (performSearch now remote later w) = Some Results"
    using sh by (simp only: p)
  show ?thesis
    by (intro conjI 1 2 3 4 5 6 7 e [THEN conjunct1] e [THEN conjunct2, THEN conjunct2])
qed

theorem charizard_fallback_witness:
  "d_name charizard_descriptor = ''Charizard'' \<and> d_set charizard_descriptor = ''Base Set'' \<and>
   d_condition charizard_descriptor = ''Near Mint'' \<and>
   isLoggedIn search_world \<and> \<not> searchInProgress search_world \<and>
   cardData search_world = Some charizard_descriptor \<and>
   fresh_entry (cache search_world)
     (cache_key ''Charizard'' ''Base Set'' (d_number charizard_descriptor)) 0 = None \<and>
   fetchFromPokemonTCG (offline_remote (build_query ''Charizard'' ''Base Set'')) =
     FetchError ''Failed to fetch'' \<and>
   currentCard (performSearch 0 offline_remote 1 search_world) =
     Some (createMockCardResult charizard_descriptor 1) \<and>
   c_avg (createMockCardResult charizard_descriptor 1) = Some (Num 166) \<and>
   map_option rv_price (resultsView (performSearch 0 offline_remote 1 search_world)) =
     Some ''$166.00''"
proof -
  have d: "d_name charizard_descriptor = ''Charizard''" "d_set charizard_descriptor = ''Base Set''"
    "d_condition charizard_descriptor = ''Near Mint''"
    by (simp_all add: charizard_descriptor_def)
  note f = search_world_facts
  have c: "fresh_entry (cache search_world)
     (cache_key ''Charizard'' ''Base Set'' (d_number charizard_descriptor)) 0 = None"
    by (simp add: f(4) fresh_entry_def)
  have o: "fetchFromPokemonTCG (offline_remote (build_query ''Charizard'' ''Base Set'')) =
     FetchError ''Failed to fetch''"
    by (simp add: offline_remote_def)
  have o': "\<forall>c cs. fetchFromPokemonTCG (offline_remote (build_query ''Charizard'' ''Base Set'')) \<noteq>
                  FetchOk (Some (c # cs))"
    by (simp only: o; simp)
  note T = charizard_fallback [of charizard_descriptor search_world 0 offline_remote 1, OF d f(1) f(2) f(3) c o']
  have 1: "currentCard (performSearch 0 offline_remote 1 search_world) =
     Some (createMockCardResult charizard_descriptor 1)"
    using T by blast
  have 2: "c_avg (createMockCardResult charizard_descriptor 1) = Some (Num 166)"
    using T [THEN conjunct2, THEN conjunct1] by (simp only: mock_price_charizard)
  have 3: "map_option rv_price (resultsView (performSearch 0 offline_remote 1 search_world)) =
     Some ''$166.00''"
    using T by blast
  show ?thesis by (intro conjI d f(1) f(2) f(3) c o 1 2 3)
qed


end
